theory Spec2Isabelle
  imports Complex_Main "HOL-Library.AList"
begin

section \<open>Geometry and pose primitives\<close>

text \<open>
  A JavaScript \<open>number\<close> is modelled as a real. The three.js value classes used by the
  editor are modelled by the formulas of the library methods the source calls
  (\<open>Quaternion.setFromAxisAngle\<close>, \<open>Quaternion.premultiply\<close>, \<open>Euler \<rightarrow> Quaternion\<close>
  in the default order XYZ).
\<close>

datatype Vector3 = Vector3 (vx: real) (vy: real) (vz: real)

datatype Quaternion = Quaternion (qx: real) (qy: real) (qz: real) (qw: real)

definition setFromAxisAngle :: "Vector3 \<Rightarrow> real \<Rightarrow> Quaternion" where
  "setFromAxisAngle axis angle =
     (let halfAngle = angle / 2; s = sin halfAngle
      in Quaternion (vx axis * s) (vy axis * s) (vz axis * s) (cos halfAngle))"

definition multiplyQuaternions :: "Quaternion \<Rightarrow> Quaternion \<Rightarrow> Quaternion" where
  "multiplyQuaternions a b =
     Quaternion
       (qx a * qw b + qw a * qx b + qy a * qz b - qz a * qy b)
       (qy a * qw b + qw a * qy b + qz a * qx b - qx a * qz b)
       (qz a * qw b + qw a * qz b + qx a * qy b - qy a * qx b)
       (qw a * qw b - qx a * qx b - qy a * qy b - qz a * qz b)"

definition premultiply :: "Quaternion \<Rightarrow> Quaternion \<Rightarrow> Quaternion" where
  \<comment> \<open>\<open>this.premultiply(q)\<close>: the receiver becomes \<open>q * this\<close>.\<close>
  "premultiply this q = multiplyQuaternions q this"

definition setFromEuler :: "Vector3 \<Rightarrow> Quaternion" where
  \<comment> \<open>\<open>object.rotation.set(x, y, z)\<close> keeps the quaternion in step (order XYZ).\<close>
  "setFromEuler e =
     (let c1 = cos (vx e / 2); c2 = cos (vy e / 2); c3 = cos (vz e / 2);
          s1 = sin (vx e / 2); s2 = sin (vy e / 2); s3 = sin (vz e / 2)
      in Quaternion
           (s1 * c2 * c3 + c1 * s2 * s3)
           (c1 * s2 * c3 - s1 * c2 * s3)
           (c1 * c2 * s3 + s1 * s2 * c3)
           (c1 * c2 * c3 - s1 * s2 * s3))"

section \<open>Scene object registry\<close>

text \<open>
  A three.js \<open>Object3D\<close> is a mutable object reached through references: a
  \<open>LoadedAsset\<close> holds a reference (\<open>object\<close>), and copying an asset record
  (\<open>{ ...asset }\<close>) copies the reference. The objects live in a store indexed by
  reference. The sub-hierarchy an object owns is kept as the list \<open>nodes\<close> that
  \<open>traverse\<close> visits (node identity, \<open>isMesh\<close>) and as the points \<open>geometry\<close>
  from which a bounding box is measured.
\<close>

type_synonym objref = nat

record Object3D =
  position :: Vector3
  quaternion :: Quaternion
  scale :: Vector3
  geometry :: "Vector3 list"
  nodes :: "(nat \<times> bool) list"

record LoadedAsset =
  asset_id :: string
  asset_name :: string
  object :: objref
  locked :: bool
  excludeFromExport :: bool
  disableGravity :: bool

record SpawnBounds =
  minX :: real
  maxX :: real
  minY :: real
  maxY :: real

record SavedPose =
  pose_position :: Vector3
  pose_quaternion :: Quaternion

text \<open>
  A JavaScript \<open>Map<string, SavedPose>\<close> keeps insertion order and one entry per key:
  \<open>set\<close> on a key that is present replaces the value in place, on a new key it appends.
  That is \<open>AList.update\<close> on an association list.
\<close>

type_synonym PoseMap = "(string \<times> SavedPose) list"

record SavedCondition =
  poses :: PoseMap

record TransformSnapshot =
  snap_position :: Vector3
  snap_rotation :: Vector3
  snap_scale :: Vector3

record Scene =
  assets :: "LoadedAsset list"
  objects :: "objref \<Rightarrow> Object3D"
  selectedAsset :: "LoadedAsset option"
  isRandomizeMode :: bool
  spawnBounds :: SpawnBounds
  savedPoses :: "PoseMap option"
  savedConditions :: "SavedCondition list"
  instruction :: string

definition DEFAULT_SPAWN_BOUNDS :: SpawnBounds where
  "DEFAULT_SPAWN_BOUNDS = \<lparr>minX = - 0.3, maxX = 0.3, minY = - 0.3, maxY = 0.3\<rparr>"

section \<open>Command history (useHistory)\<close>

record 'c History =
  undoStack :: "'c list"
  redoStack :: "'c list"

definition MAX_HISTORY_SIZE :: nat where
  "MAX_HISTORY_SIZE = 50"

definition emptyHistory :: "'c History" where
  "emptyHistory = \<lparr>undoStack = [], redoStack = []\<rparr>"

definition pushCommand :: "'c \<Rightarrow> 'c History \<Rightarrow> 'c History" where
  "pushCommand command h =
     (let u = undoStack h @ [command];
          u' = (if length u > MAX_HISTORY_SIZE
                then drop (length u - MAX_HISTORY_SIZE) u else u)
      in \<lparr>undoStack = u', redoStack = []\<rparr>)"

definition clear :: "'c History \<Rightarrow> 'c History" where
  "clear h = \<lparr>undoStack = [], redoStack = []\<rparr>"

definition canUndo :: "'c History \<Rightarrow> bool" where
  "canUndo h = (length (undoStack h) > 0)"

definition canRedo :: "'c History \<Rightarrow> bool" where
  "canRedo h = (length (redoStack h) > 0)"

text \<open>
  \<open>undo\<close> and \<open>redo\<close> run the popped command's action on the application state; the
  action of a command is given by the interpretation \<open>act\<close> of the command type.
\<close>

definition undoWith :: "('c \<Rightarrow> 's \<Rightarrow> 's) \<Rightarrow> 's \<times> 'c History \<Rightarrow> 's \<times> 'c History" where
  "undoWith act sh =
     (let s = fst sh; h = snd sh
      in if length (undoStack h) = 0 then sh
         else let command = last (undoStack h)
              in (act command s,
                  \<lparr>undoStack = butlast (undoStack h),
                   redoStack = redoStack h @ [command]\<rparr>))"

definition redoWith :: "('c \<Rightarrow> 's \<Rightarrow> 's) \<Rightarrow> 's \<times> 'c History \<Rightarrow> 's \<times> 'c History" where
  "redoWith act sh =
     (let s = fst sh; h = snd sh
      in if length (redoStack h) = 0 then sh
         else let command = last (redoStack h)
              in (act command s,
                  \<lparr>undoStack = undoStack h @ [command],
                   redoStack = butlast (redoStack h)\<rparr>))"

text \<open>
  The histories that the four operations can produce from the empty one. What \<open>undo\<close>
  and \<open>redo\<close> do to the two stacks does not depend on the application state, so the
  stacks are followed with a trivial state.
\<close>

inductive reachableHistory :: "'c History \<Rightarrow> bool" where
  reach_init: "reachableHistory emptyHistory"
| reach_push: "reachableHistory h \<Longrightarrow> reachableHistory (pushCommand c h)"
| reach_undo: "reachableHistory h \<Longrightarrow> reachableHistory (snd (undoWith (\<lambda>c u. u) ((), h)))"
| reach_redo: "reachableHistory h \<Longrightarrow> reachableHistory (snd (redoWith (\<lambda>c u. u) ((), h)))"
| reach_clear: "reachableHistory h \<Longrightarrow> reachableHistory (clear h)"

section \<open>Scene operations (useSceneProvider)\<close>

text \<open>
  The provider is taken after \<open>initScene\<close>: \<open>sceneManager\<close> and \<open>selectionManager\<close>
  are present. The render scene graph (\<open>scene.add\<close>, \<open>scene.remove\<close>) and the highlight
  box are presentation and are left out. \<open>selectionManager.select(a)\<close> reaches the
  provider through \<open>onSelectionChange\<close>, which sets \<open>selectedAsset\<close>. React state updates
  are taken as immediate, \<open>assetsRef.current\<close> being the current \<open>assets\<close>.
\<close>

definition findAsset :: "string \<Rightarrow> LoadedAsset list \<Rightarrow> LoadedAsset option" where
  "findAsset i as = find (\<lambda>a. asset_id a = i) as"

definition applyTransform ::
  "string \<Rightarrow> Vector3 \<Rightarrow> Vector3 \<Rightarrow> Vector3 \<Rightarrow> Scene \<Rightarrow> Scene" where
  "applyTransform i pos rot scl s =
     (case findAsset i (assets s) of
        None \<Rightarrow> s
      | Some asset \<Rightarrow>
          s\<lparr>objects := (objects s)(object asset :=
               (objects s (object asset))
                 \<lparr>position := pos,
                  quaternion := setFromEuler
                    (Vector3 (vx rot * (pi / 180)) (vy rot * (pi / 180)) (vz rot * (pi / 180))),
                  scale := scl\<rparr>)\<rparr>)"

definition updateAssetTransform ::
  "string \<Rightarrow> Vector3 \<Rightarrow> Vector3 \<Rightarrow> Vector3 \<Rightarrow> Scene \<Rightarrow> Scene" where
  "updateAssetTransform i pos rot scl s = applyTransform i pos rot scl s"

definition setInstruction :: "string \<Rightarrow> Scene \<Rightarrow> Scene" where
  "setInstruction v s = s\<lparr>instruction := v\<rparr>"

definition setSpawnBoundsState :: "SpawnBounds \<Rightarrow> Scene \<Rightarrow> Scene" where
  "setSpawnBoundsState b s = s\<lparr>spawnBounds := b\<rparr>"

definition selectAsset :: "LoadedAsset option \<Rightarrow> Scene \<Rightarrow> Scene" where
  "selectAsset a s = s\<lparr>selectedAsset := a\<rparr>"

definition doAddAsset :: "LoadedAsset \<Rightarrow> Scene \<Rightarrow> Scene" where
  "doAddAsset asset s = s\<lparr>assets := assets s @ [asset]\<rparr>"

definition selectedHasId :: "LoadedAsset option \<Rightarrow> string \<Rightarrow> bool" where
  \<comment> \<open>\<open>selectedAsset?.id === id\<close>\<close>
  "selectedHasId sel i = (case sel of None \<Rightarrow> False | Some a \<Rightarrow> asset_id a = i)"

text \<open>
  \<open>doRemoveAsset\<close> is a callback that closes over \<open>selectedAsset\<close>; a command keeps the
  callback of the render in which the command was built, so the selection it tests is the
  one captured then (\<open>sel\<close>).
\<close>

definition doRemoveAsset :: "LoadedAsset option \<Rightarrow> string \<Rightarrow> Scene \<Rightarrow> Scene" where
  "doRemoveAsset sel i s =
     (let s1 = (case findAsset i (assets s) of
                  None \<Rightarrow> s
                | Some asset \<Rightarrow> if selectedHasId sel i then selectAsset None s else s)
      in s1\<lparr>assets := filter (\<lambda>a. asset_id a \<noteq> i) (assets s)\<rparr>)"

definition doToggleAssetGravity :: "string \<Rightarrow> Scene \<Rightarrow> Scene" where
  "doToggleAssetGravity i s =
     s\<lparr>assets := map (\<lambda>asset. if asset_id asset = i
                             then asset\<lparr>disableGravity := \<not> disableGravity asset\<rparr>
                             else asset) (assets s)\<rparr>"

definition isDynamic :: "LoadedAsset \<Rightarrow> bool" where
  \<comment> \<open>\<open>!a.excludeFromExport && !a.disableGravity && !a.locked\<close>\<close>
  "isDynamic a = (\<not> excludeFromExport a \<and> \<not> disableGravity a \<and> \<not> locked a)"

definition poseOf :: "Object3D \<Rightarrow> SavedPose" where
  "poseOf ob = \<lparr>pose_position = position ob, pose_quaternion = quaternion ob\<rparr>"

definition posesOf :: "(objref \<Rightarrow> Object3D) \<Rightarrow> LoadedAsset list \<Rightarrow> PoseMap" where
  \<comment> \<open>\<open>assets.forEach(asset => poses.set(asset.id, {position, quaternion}))\<close>\<close>
  "posesOf objs as =
     foldl (\<lambda>m asset. AList.update (asset_id asset) (poseOf (objs (object asset))) m) [] as"

definition capturePoses :: "Scene \<Rightarrow> PoseMap" where
  "capturePoses s = posesOf (objects s) (filter isDynamic (assets s))"

definition applyPose :: "Scene \<Rightarrow> string \<times> SavedPose \<Rightarrow> Scene" where
  "applyPose s e =
     (case findAsset (fst e) (assets s) of
        None \<Rightarrow> s
      | Some asset \<Rightarrow>
          s\<lparr>objects := (objects s)(object asset :=
               (objects s (object asset))
                 \<lparr>position := pose_position (snd e),
                  quaternion := pose_quaternion (snd e)\<rparr>)\<rparr>)"

definition applyPoses :: "PoseMap \<Rightarrow> Scene \<Rightarrow> Scene" where
  "applyPoses ps s = foldl applyPose s ps"

definition doAddSavedCondition :: "SavedCondition \<Rightarrow> Scene \<Rightarrow> Scene" where
  "doAddSavedCondition condition s = s\<lparr>savedConditions := savedConditions s @ [condition]\<rparr>"

definition doRemoveLastSavedCondition :: "Scene \<Rightarrow> Scene" where
  \<comment> \<open>\<open>prev.slice(0, -1)\<close>; on the empty list it is the empty list\<close>
  "doRemoveLastSavedCondition s = s\<lparr>savedConditions := butlast (savedConditions s)\<rparr>"

definition doSetSavedConditions :: "SavedCondition list \<Rightarrow> Scene \<Rightarrow> Scene" where
  "doSetSavedConditions conditions s = s\<lparr>savedConditions := conditions\<rparr>"

section \<open>Commands\<close>

text \<open>
  A \<open>Command\<close> of the source is an object literal \<open>{type, execute, undo}\<close> whose two
  closures capture values of the function that builds it. There are twelve such literals;
  each is a constructor carrying the captured values, and \<open>command_execute\<close> and
  \<open>command_undo\<close> are the bodies of the closures.
\<close>

datatype Command =
    TransformCmd string TransformSnapshot TransformSnapshot
  | InstructionCmd string string
  | SpawnBoundsCmd SpawnBounds SpawnBounds
  | AddAssetCmd LoadedAsset "LoadedAsset option"
  | RemoveAssetCmd string LoadedAsset bool "LoadedAsset option"
  | ToggleGravityCmd string
  | RandomizeCmd PoseMap PoseMap
  | SaveConditionCmd SavedCondition
  | AcceptRandomizationCmd SavedCondition
  | ClearConditionsCmd "SavedCondition list"
  | DeleteConditionCmd "SavedCondition list" "SavedCondition list"
  | LoadConditionCmd PoseMap PoseMap

fun command_type :: "Command \<Rightarrow> string" where
  "command_type (TransformCmd i before after) = ''transform''"
| "command_type (InstructionCmd before after) = ''instruction''"
| "command_type (SpawnBoundsCmd before after) = ''spawnBounds''"
| "command_type (AddAssetCmd asset sel) = ''addAsset''"
| "command_type (RemoveAssetCmd i asset wasSelected sel) = ''removeAsset''"
| "command_type (ToggleGravityCmd i) = ''toggleGravity''"
| "command_type (RandomizeCmd beforePoses afterPoses) = ''randomize''"
| "command_type (SaveConditionCmd condition) = ''saveCondition''"
| "command_type (AcceptRandomizationCmd condition) = ''acceptRandomization''"
| "command_type (ClearConditionsCmd previousConditions) = ''clearConditions''"
| "command_type (DeleteConditionCmd newConditions previousConditions) = ''deleteCondition''"
| "command_type (LoadConditionCmd beforePoses afterPoses) = ''loadCondition''"

fun command_execute :: "Command \<Rightarrow> Scene \<Rightarrow> Scene" where
  "command_execute (TransformCmd i before after) s =
     applyTransform i (snap_position after) (snap_rotation after) (snap_scale after) s"
| "command_execute (InstructionCmd before after) s = setInstruction after s"
| "command_execute (SpawnBoundsCmd before after) s = setSpawnBoundsState after s"
| "command_execute (AddAssetCmd asset sel) s = doAddAsset asset s"
| "command_execute (RemoveAssetCmd i asset wasSelected sel) s = doRemoveAsset sel i s"
| "command_execute (ToggleGravityCmd i) s = doToggleAssetGravity i s"
| "command_execute (RandomizeCmd beforePoses afterPoses) s = applyPoses afterPoses s"
| "command_execute (SaveConditionCmd condition) s = doAddSavedCondition condition s"
| "command_execute (AcceptRandomizationCmd condition) s = doAddSavedCondition condition s"
| "command_execute (ClearConditionsCmd previousConditions) s = doSetSavedConditions [] s"
| "command_execute (DeleteConditionCmd newConditions previousConditions) s =
     doSetSavedConditions newConditions s"
| "command_execute (LoadConditionCmd beforePoses afterPoses) s = applyPoses afterPoses s"

fun command_undo :: "Command \<Rightarrow> Scene \<Rightarrow> Scene" where
  "command_undo (TransformCmd i before after) s =
     applyTransform i (snap_position before) (snap_rotation before) (snap_scale before) s"
| "command_undo (InstructionCmd before after) s = setInstruction before s"
| "command_undo (SpawnBoundsCmd before after) s = setSpawnBoundsState before s"
| "command_undo (AddAssetCmd asset sel) s = doRemoveAsset sel (asset_id asset) s"
| "command_undo (RemoveAssetCmd i asset wasSelected sel) s =
     (let s1 = doAddAsset asset s
      in if wasSelected then selectAsset (Some asset) s1 else s1)"
| "command_undo (ToggleGravityCmd i) s = doToggleAssetGravity i s"
| "command_undo (RandomizeCmd beforePoses afterPoses) s = applyPoses beforePoses s"
| "command_undo (SaveConditionCmd condition) s = doRemoveLastSavedCondition s"
| "command_undo (AcceptRandomizationCmd condition) s = doRemoveLastSavedCondition s"
| "command_undo (ClearConditionsCmd previousConditions) s =
     doSetSavedConditions previousConditions s"
| "command_undo (DeleteConditionCmd newConditions previousConditions) s =
     doSetSavedConditions previousConditions s"
| "command_undo (LoadConditionCmd beforePoses afterPoses) s = applyPoses beforePoses s"

text \<open>The application state: the provider's state and the history it owns.\<close>

type_synonym App = "Scene \<times> Command History"

definition undo :: "App \<Rightarrow> App" where
  "undo = undoWith command_undo"

definition redo :: "App \<Rightarrow> App" where
  "redo = redoWith command_execute"

section \<open>Operations that push a command\<close>

definition createTransformCommand ::
  "string \<Rightarrow> TransformSnapshot \<Rightarrow> TransformSnapshot \<Rightarrow> App \<Rightarrow> App" where
  "createTransformCommand i before after sh =
     (fst sh, pushCommand (TransformCmd i before after) (snd sh))"

definition createInstructionCommand :: "string \<Rightarrow> string \<Rightarrow> App \<Rightarrow> App" where
  "createInstructionCommand before after sh =
     (fst sh, pushCommand (InstructionCmd before after) (snd sh))"

definition createSpawnBoundsCommand :: "SpawnBounds \<Rightarrow> SpawnBounds \<Rightarrow> App \<Rightarrow> App" where
  "createSpawnBoundsCommand before after sh =
     (fst sh, pushCommand (SpawnBoundsCmd before after) (snd sh))"

definition addAsset :: "LoadedAsset \<Rightarrow> App \<Rightarrow> App" where
  "addAsset asset sh =
     (let s = fst sh
      in (doAddAsset asset s, pushCommand (AddAssetCmd asset (selectedAsset s)) (snd sh)))"

definition removeAsset :: "string \<Rightarrow> App \<Rightarrow> App" where
  "removeAsset i sh =
     (let s = fst sh
      in case findAsset i (assets s) of
           None \<Rightarrow> sh
         | Some asset \<Rightarrow>
             (let wasSelected = selectedHasId (selectedAsset s) i
              in (doRemoveAsset (selectedAsset s) i s,
                  pushCommand (RemoveAssetCmd i asset wasSelected (selectedAsset s)) (snd sh))))"

definition toggleAssetGravity :: "string \<Rightarrow> App \<Rightarrow> App" where
  "toggleAssetGravity i sh =
     (doToggleAssetGravity i (fst sh), pushCommand (ToggleGravityCmd i) (snd sh))"

definition saveCurrentCondition :: "App \<Rightarrow> App" where
  "saveCurrentCondition sh =
     (let s = fst sh; dynamicAssets = filter isDynamic (assets s)
      in if length dynamicAssets > 0
         then (let condition = \<lparr>poses = posesOf (objects s) dynamicAssets\<rparr>
               in (doAddSavedCondition condition s,
                   pushCommand (SaveConditionCmd condition) (snd sh)))
         else sh)"

text \<open>
  \<open>acceptRandomization\<close> ends by scheduling \<open>randomizeNonStaticAssets\<close> with
  \<open>setTimeout(.., 0)\<close>; that call is a later, separate step and is not part of this one.
\<close>

definition acceptRandomization :: "App \<Rightarrow> App" where
  "acceptRandomization sh =
     (let s = fst sh; dynamicAssets = filter isDynamic (assets s);
          sh1 = (if length dynamicAssets > 0
                 then (let condition = \<lparr>poses = posesOf (objects s) dynamicAssets\<rparr>
                       in (doAddSavedCondition condition s,
                           pushCommand (AcceptRandomizationCmd condition) (snd sh)))
                 else sh)
      in ((fst sh1)\<lparr>savedPoses := None\<rparr>, snd sh1))"

definition clearSavedConditions :: "App \<Rightarrow> App" where
  "clearSavedConditions sh =
     (let s = fst sh; previousConditions = savedConditions s
      in if length previousConditions = 0 then sh
         else (doSetSavedConditions [] s,
               pushCommand (ClearConditionsCmd previousConditions) (snd sh)))"

text \<open>
  The index of \<open>deleteCondition\<close> and \<open>loadCondition\<close> is the position of a list item,
  an integer that the bound check allows to be negative or too large.
\<close>

definition filterIndex :: "(int \<Rightarrow> bool) \<Rightarrow> 'a list \<Rightarrow> 'a list" where
  \<comment> \<open>\<open>xs.filter((_, i) => p(i))\<close>\<close>
  "filterIndex p xs = map snd (filter (\<lambda>e. p (int (fst e))) (enumerate 0 xs))"

definition deleteCondition :: "int \<Rightarrow> App \<Rightarrow> App" where
  "deleteCondition index sh =
     (let s = fst sh; previousConditions = savedConditions s
      in if index < 0 \<or> index \<ge> int (length previousConditions) then sh
         else (let newConditions = filterIndex (\<lambda>i. i \<noteq> index) previousConditions
               in (doSetSavedConditions newConditions s,
                   pushCommand (DeleteConditionCmd newConditions previousConditions) (snd sh))))"

definition loadCondition :: "int \<Rightarrow> App \<Rightarrow> App" where
  "loadCondition index sh =
     (let s = fst sh; conditions = savedConditions s
      in if index < 0 \<or> index \<ge> int (length conditions) then sh
         else (let condition = conditions ! nat index;
                   beforePoses = capturePoses s;
                   s1 = applyPoses (poses condition) s;
                   afterPoses = capturePoses s1
               in (s1, pushCommand (LoadConditionCmd beforePoses afterPoses) (snd sh))))"

section \<open>Randomized placement\<close>

text \<open>
  A three.js \<open>Box3\<close>. The empty box of the library has \<open>min = +\<infinity>\<close> and
  \<open>max = -\<infinity>\<close>; it is a constructor of its own, with the results the library's
  comparisons give on those bounds.
\<close>

datatype Box3 = EmptyBox | Box3 Vector3 Vector3

fun isEmpty :: "Box3 \<Rightarrow> bool" where
  "isEmpty EmptyBox = True"
| "isEmpty (Box3 mn mx) = (vx mx < vx mn \<or> vy mx < vy mn \<or> vz mx < vz mn)"

fun getSize :: "Box3 \<Rightarrow> Vector3" where
  "getSize EmptyBox = Vector3 0 0 0"
| "getSize (Box3 mn mx) =
     (if isEmpty (Box3 mn mx) then Vector3 0 0 0
      else Vector3 (vx mx - vx mn) (vy mx - vy mn) (vz mx - vz mn))"

fun intersectsBox :: "Box3 \<Rightarrow> Box3 \<Rightarrow> bool" where
  "intersectsBox (Box3 tmn tmx) (Box3 bmn bmx) =
     (if vx bmx < vx tmn \<or> vx bmn > vx tmx \<or>
         vy bmx < vy tmn \<or> vy bmn > vy tmx \<or>
         vz bmx < vz tmn \<or> vz bmn > vz tmx then False else True)"
| "intersectsBox EmptyBox b = False"
| "intersectsBox t EmptyBox = False"

definition checkCollision :: "Box3 \<Rightarrow> Box3 \<Rightarrow> bool" where
  "checkCollision box1 box2 = intersectsBox box1 box2"

fun isBoxWithinSpawnBounds :: "SpawnBounds \<Rightarrow> Box3 \<Rightarrow> bool" where
  "isBoxWithinSpawnBounds bounds (Box3 mn mx) =
     (let minX = minX bounds; maxX = maxX bounds;
          minZ = - maxY bounds; maxZ = - minY bounds
      in vx mn \<ge> minX \<and> vx mx \<le> maxX \<and> vz mn \<ge> minZ \<and> vz mx \<le> maxZ)"
| "isBoxWithinSpawnBounds bounds EmptyBox = True"

text \<open>
  The world bounding box of an object (\<open>new THREE.Box3().setFromObject(object)\<close>) is a
  service of the rendering layer; the placement functions take it as the parameter
  \<open>bb\<close>. The values \<open>Math.random()\<close> returns during one invocation are the parameter
  \<open>rand\<close>: call number \<open>k\<close> (from 0) returns \<open>rand k\<close>.
\<close>

definition getAssetBoundingBox ::
  "(Object3D \<Rightarrow> Box3) \<Rightarrow> LoadedAsset \<Rightarrow> (objref \<Rightarrow> Object3D) \<Rightarrow> Box3" where
  "getAssetBoundingBox bb asset objs = bb (objs (object asset))"

definition getAssetLocalSize ::
  "(Object3D \<Rightarrow> Box3) \<Rightarrow> LoadedAsset \<Rightarrow> Quaternion option \<Rightarrow> (objref \<Rightarrow> Object3D)
     \<Rightarrow> Vector3 \<times> (objref \<Rightarrow> Object3D)" where
  "getAssetLocalSize bb asset useRotation objs =
     (let r = object asset;
          savedPos = position (objs r);
          savedQuat = quaternion (objs r);
          objs1 = objs(r := (objs r)
                    \<lparr>position := Vector3 0 0 0,
                     quaternion := (case useRotation of
                                      Some q \<Rightarrow> q
                                    | None \<Rightarrow> Quaternion 0 0 0 1)\<rparr>);
          box = bb (objs1 r);
          size = getSize box;
          objs2 = objs1(r := (objs1 r)\<lparr>position := savedPos, quaternion := savedQuat\<rparr>)
      in (size, objs2))"

definition maxAttempts :: nat where
  "maxAttempts = 100"

text \<open>
  The state of the placement loops: the object store, \<open>placedBoxes\<close>, the number of
  \<open>Math.random()\<close> calls made so far, and the local variable \<open>placed\<close> of the asset being
  placed. \<open>placedLog\<close> is not a variable of the source: it records, for each asset the
  outer loop has finished, the value \<open>placed\<close> had when the asset's attempts ended.
\<close>

record Placing =
  pl_objects :: "objref \<Rightarrow> Object3D"
  placedBoxes :: "Box3 list"
  randomCalls :: nat
  placed :: bool
  placedLog :: "bool list"

text \<open>The values computed once per asset, before its attempts.\<close>

record AssetFit =
  validMinX :: real
  validMaxX :: real
  validMinY :: real
  validMaxY :: real
  canFit :: bool
  originalHeight :: real

definition assetFit ::
  "SpawnBounds \<Rightarrow> Vector3 \<Rightarrow> real \<Rightarrow> AssetFit" where
  "assetFit bounds assetSize height =
     (let maxHorizontalExtent = max (vx assetSize) (vz assetSize) / 2;
          validMinX = minX bounds + maxHorizontalExtent;
          validMaxX = maxX bounds - maxHorizontalExtent;
          validMinY = minY bounds + maxHorizontalExtent;
          validMaxY = maxY bounds - maxHorizontalExtent
      in \<lparr>validMinX = validMinX, validMaxX = validMaxX,
          validMinY = validMinY, validMaxY = validMaxY,
          canFit = (validMinX < validMaxX \<and> validMinY < validMaxY),
          originalHeight = height\<rparr>)"

text \<open>One pass through the body of the attempt loop.\<close>

definition attemptPlacement ::
  "(Object3D \<Rightarrow> Box3) \<Rightarrow> (nat \<Rightarrow> real) \<Rightarrow> SpawnBounds \<Rightarrow> LoadedAsset \<Rightarrow> SavedPose option
     \<Rightarrow> AssetFit \<Rightarrow> Placing \<Rightarrow> Placing" where
  "attemptPlacement bb rand bounds asset savedPose fit st =
     (let k = randomCalls st;
          x = (if canFit fit
               then validMinX fit + rand k * (validMaxX fit - validMinX fit)
               else (minX bounds + maxX bounds) / 2);
          z = (if canFit fit
               then - (validMinY fit + rand (k + 1) * (validMaxY fit - validMinY fit))
               else - ((minY bounds + maxY bounds) / 2));
          k1 = (if canFit fit then k + 2 else k);
          rotY = rand k1 * pi * 2;
          randomYRotation = setFromAxisAngle (Vector3 0 1 0) rotY;
          r = object asset;
          objs = pl_objects st;
          objs1 = objs(r := (objs r)
                    \<lparr>position := Vector3 x (originalHeight fit) z,
                     quaternion := (case savedPose of
                                      Some p \<Rightarrow> premultiply (pose_quaternion p) randomYRotation
                                    | None \<Rightarrow> setFromEuler (Vector3 0 rotY 0))\<rparr>);
          assetBox = getAssetBoundingBox bb asset objs1;
          hasCollision = list_ex (\<lambda>placedBox. checkCollision assetBox placedBox)
                           (placedBoxes st);
          withinBounds = isBoxWithinSpawnBounds bounds assetBox;
          st1 = st\<lparr>pl_objects := objs1, randomCalls := k1 + 1\<rparr>
      in if \<not> hasCollision \<and> withinBounds
         then st1\<lparr>placedBoxes := placedBoxes st @ [assetBox], placed := True\<rparr>
         else if \<not> canFit fit \<and> \<not> hasCollision
         then st1\<lparr>placedBoxes := placedBoxes st @ [assetBox], placed := True\<rparr>
         else st1)"

text \<open>
  \<open>for (attempt = 0; attempt < maxAttempts && !placed; attempt++)\<close>: the numeric argument
  is the number of attempts left, \<open>maxAttempts - attempt\<close>.
\<close>

fun attempts ::
  "(Object3D \<Rightarrow> Box3) \<Rightarrow> (nat \<Rightarrow> real) \<Rightarrow> SpawnBounds \<Rightarrow> LoadedAsset \<Rightarrow> SavedPose option
     \<Rightarrow> AssetFit \<Rightarrow> nat \<Rightarrow> Placing \<Rightarrow> Placing" where
  "attempts bb rand bounds asset savedPose fit 0 st = st"
| "attempts bb rand bounds asset savedPose fit (Suc n) st =
     (if placed st then st
      else attempts bb rand bounds asset savedPose fit n
             (attemptPlacement bb rand bounds asset savedPose fit st))"

text \<open>The body of the loop over the dynamic assets.\<close>

definition fitOf ::
  "(Object3D \<Rightarrow> Box3) \<Rightarrow> SpawnBounds \<Rightarrow> PoseMap \<Rightarrow> LoadedAsset \<Rightarrow> (objref \<Rightarrow> Object3D)
     \<Rightarrow> AssetFit" where
  "fitOf bb bounds poseMap asset objs =
     (let savedPose = map_of poseMap (asset_id asset);
          sized = getAssetLocalSize bb asset (map_option pose_quaternion savedPose) objs
      in assetFit bounds (fst sized)
           (case savedPose of
              Some p \<Rightarrow> vy (pose_position p)
            | None \<Rightarrow> vy (position (snd sized (object asset)))))"

definition placeAsset ::
  "(Object3D \<Rightarrow> Box3) \<Rightarrow> (nat \<Rightarrow> real) \<Rightarrow> SpawnBounds \<Rightarrow> PoseMap \<Rightarrow> Placing \<Rightarrow> LoadedAsset
     \<Rightarrow> Placing" where
  "placeAsset bb rand bounds poseMap st asset =
     (let savedPose = map_of poseMap (asset_id asset);
          sized = getAssetLocalSize bb asset (map_option pose_quaternion savedPose)
                    (pl_objects st);
          fit = fitOf bb bounds poseMap asset (pl_objects st);
          st1 = attempts bb rand bounds asset savedPose fit maxAttempts
                  (st\<lparr>pl_objects := snd sized, placed := False\<rparr>);
          st2 = (if \<not> placed st1
                 then st1\<lparr>placedBoxes := placedBoxes st1 @
                             [getAssetBoundingBox bb asset (pl_objects st1)]\<rparr>
                 else st1)
      in st2\<lparr>placedLog := placedLog st2 @ [placed st1]\<rparr>)"

definition runPlacement ::
  "(Object3D \<Rightarrow> Box3) \<Rightarrow> (nat \<Rightarrow> real) \<Rightarrow> Scene \<Rightarrow> Placing" where
  "runPlacement bb rand s =
     (let dynamicAssets = filter isDynamic (assets s);
          poses = posesOf (objects s) dynamicAssets
      in foldl (placeAsset bb rand (spawnBounds s) poses)
           \<lparr>pl_objects = objects s, placedBoxes = [], randomCalls = 0,
            placed = False, placedLog = []\<rparr>
           dynamicAssets)"

definition doRandomizeNonStaticAssets ::
  "(Object3D \<Rightarrow> Box3) \<Rightarrow> (nat \<Rightarrow> real) \<Rightarrow> Scene \<Rightarrow> Scene" where
  "doRandomizeNonStaticAssets bb rand s =
     (let dynamicAssets = filter isDynamic (assets s)
      in if length dynamicAssets = 0 then s
         else (let poses = posesOf (objects s) dynamicAssets
               in s\<lparr>savedPoses := Some poses,
                    objects := pl_objects (runPlacement bb rand s)\<rparr>))"

definition randomizeNonStaticAssets ::
  "(Object3D \<Rightarrow> Box3) \<Rightarrow> (nat \<Rightarrow> real) \<Rightarrow> App \<Rightarrow> App" where
  "randomizeNonStaticAssets bb rand sh =
     (let s = fst sh; beforePoses = capturePoses s
      in if length beforePoses = 0 then sh
         else (let s1 = doRandomizeNonStaticAssets bb rand s;
                   afterPoses = capturePoses s1
               in (s1, pushCommand (RandomizeCmd beforePoses afterPoses) (snd sh))))"

subsection \<open>The gate of Randomize mode (RandomizationPanel)\<close>

definition exportableAssets :: "LoadedAsset list \<Rightarrow> LoadedAsset list" where
  "exportableAssets as = filter (\<lambda>a. \<not> excludeFromExport a \<and> \<not> locked a) as"

definition dynamicAssets :: "LoadedAsset list \<Rightarrow> LoadedAsset list" where
  "dynamicAssets as = filter (\<lambda>a. \<not> disableGravity a) (exportableAssets as)"

definition staticAssets :: "LoadedAsset list \<Rightarrow> LoadedAsset list" where
  "staticAssets as = filter (\<lambda>a. disableGravity a) (exportableAssets as)"

definition hasDynamicAssets :: "LoadedAsset list \<Rightarrow> bool" where
  "hasDynamicAssets as = (length (dynamicAssets as) > 0)"

definition hasStaticAssets :: "LoadedAsset list \<Rightarrow> bool" where
  "hasStaticAssets as = (length (staticAssets as) > 0)"

definition canRandomize :: "LoadedAsset list \<Rightarrow> bool" where
  "canRandomize as = (hasDynamicAssets as \<and> hasStaticAssets as)"

definition getHint :: "LoadedAsset list \<Rightarrow> string" where
  "getHint as =
     (if \<not> hasStaticAssets as \<and> \<not> hasDynamicAssets as then ''Add assets to get started''
      else if \<not> hasStaticAssets as
      then ''Mark at least one asset as \"Disable Gravity\" (static)''
      else if \<not> hasDynamicAssets as
      then ''Add assets without \"Disable Gravity\" to randomize''
      else [])"

definition enterRandomizeMode :: "Scene \<Rightarrow> Scene" where
  \<comment> \<open>the bounds proxy and its gizmo are built here as well; they are not scene state\<close>
  "enterRandomizeMode s = (selectAsset None s)\<lparr>isRandomizeMode := True\<rparr>"

text \<open>The panel's handler, with the panel's \<open>notification\<close> beside the scene.\<close>

definition handleEnterRandomize :: "Scene \<times> string option \<Rightarrow> Scene \<times> string option" where
  "handleEnterRandomize sn =
     (if \<not> canRandomize (assets (fst sn)) then (fst sn, Some (getHint (assets (fst sn))))
      else (enterRandomizeMode (fst sn), snd sn))"

subsection \<open>A bounding-box service for worked examples\<close>

text \<open>
  For evaluating the placement on concrete scenes: the box of the object's points after
  scale, rotation (\<open>Vector3.applyQuaternion\<close>) and translation, empty when there are none.
\<close>

definition applyQuaternion :: "Quaternion \<Rightarrow> Vector3 \<Rightarrow> Vector3" where
  "applyQuaternion q v =
     (let tx = 2 * (qy q * vz v - qz q * vy v);
          ty = 2 * (qz q * vx v - qx q * vz v);
          tz = 2 * (qx q * vy v - qy q * vx v)
      in Vector3 (vx v + qw q * tx + qy q * tz - qz q * ty)
                 (vy v + qw q * ty + qz q * tx - qx q * tz)
                 (vz v + qw q * tz + qx q * ty - qy q * tx))"

definition localToWorld :: "Object3D \<Rightarrow> Vector3 \<Rightarrow> Vector3" where
  "localToWorld ob p =
     (let sp = Vector3 (vx (scale ob) * vx p) (vy (scale ob) * vy p) (vz (scale ob) * vz p);
          rp = applyQuaternion (quaternion ob) sp
      in Vector3 (vx rp + vx (position ob)) (vy rp + vy (position ob))
                 (vz rp + vz (position ob)))"

fun expandByPoint :: "Box3 \<Rightarrow> Vector3 \<Rightarrow> Box3" where
  "expandByPoint EmptyBox p = Box3 p p"
| "expandByPoint (Box3 mn mx) p =
     Box3 (Vector3 (min (vx mn) (vx p)) (min (vy mn) (vy p)) (min (vz mn) (vz p)))
          (Vector3 (max (vx mx) (vx p)) (max (vy mx) (vy p)) (max (vz mx) (vz p)))"

definition setFromObject :: "Object3D \<Rightarrow> Box3" where
  "setFromObject ob = foldl expandByPoint EmptyBox (map (localToWorld ob) (geometry ob))"

section \<open>Worked example scenes\<close>

text \<open>
  Concrete scenes on which the operations are evaluated: a cube of side 0.1 around its
  origin, and the same cube modelled 10 units away from its origin along the x axis.
\<close>

definition cubeGeometry :: "Vector3 list" where
  "cubeGeometry =
     [Vector3 (- 0.05) (- 0.05) (- 0.05), Vector3 0.05 (- 0.05) (- 0.05),
      Vector3 (- 0.05) 0.05 (- 0.05), Vector3 0.05 0.05 (- 0.05),
      Vector3 (- 0.05) (- 0.05) 0.05, Vector3 0.05 (- 0.05) 0.05,
      Vector3 (- 0.05) 0.05 0.05, Vector3 0.05 0.05 0.05]"

definition farGeometry :: "Vector3 list" where
  "farGeometry =
     [Vector3 10 (- 0.05) (- 0.05), Vector3 10.1 (- 0.05) (- 0.05),
      Vector3 10 0.05 (- 0.05), Vector3 10.1 0.05 (- 0.05),
      Vector3 10 (- 0.05) 0.05, Vector3 10.1 (- 0.05) 0.05,
      Vector3 10 0.05 0.05, Vector3 10.1 0.05 0.05]"

definition objectWith :: "Vector3 list \<Rightarrow> Object3D" where
  "objectWith g =
     \<lparr>position = Vector3 0 0 0, quaternion = Quaternion 0 0 0 1, scale = Vector3 1 1 1,
      geometry = g, nodes = []\<rparr>"

definition assetWith :: "string \<Rightarrow> objref \<Rightarrow> bool \<Rightarrow> LoadedAsset" where
  "assetWith i r static =
     \<lparr>asset_id = i, asset_name = i, object = r, locked = False, excludeFromExport = False,
      disableGravity = static\<rparr>"

definition sceneWith :: "LoadedAsset list \<Rightarrow> (objref \<Rightarrow> Object3D) \<Rightarrow> Scene" where
  "sceneWith as objs =
     \<lparr>assets = as, objects = objs, selectedAsset = None, isRandomizeMode = False,
      spawnBounds = DEFAULT_SPAWN_BOUNDS, savedPoses = None, savedConditions = [],
      instruction = []\<rparr>"

definition tableAsset :: LoadedAsset where
  "tableAsset = assetWith ''table'' 0 True"

definition crateAsset :: LoadedAsset where
  "crateAsset = assetWith ''crate'' 1 False"

definition cubeObjects :: "objref \<Rightarrow> Object3D" where
  "cubeObjects = (\<lambda>r. objectWith cubeGeometry)"

definition farObjects :: "objref \<Rightarrow> Object3D" where
  "farObjects = (\<lambda>r. if r = 1 then objectWith farGeometry else objectWith cubeGeometry)"

definition tableCrateScene :: Scene where
  "tableCrateScene = sceneWith [tableAsset, crateAsset] cubeObjects"

definition crateOnlyScene :: Scene where
  "crateOnlyScene = sceneWith [crateAsset] cubeObjects"

definition tableOnlyScene :: Scene where
  "tableOnlyScene = sceneWith [tableAsset] cubeObjects"

definition farCrateScene :: Scene where
  "farCrateScene = sceneWith [tableAsset, crateAsset] farObjects"

definition halfRand :: "nat \<Rightarrow> real" where
  \<comment> \<open>every call of \<open>Math.random()\<close> returns 0.5\<close>
  "halfRand = (\<lambda>k. 1 / 2)"

definition originPose :: SavedPose where
  "originPose = \<lparr>pose_position = Vector3 0 0 0, pose_quaternion = Quaternion 0 0 0 1\<rparr>"

definition crateFit :: AssetFit where
  \<comment> \<open>what the placement computes for the crate in the default spawn bounds\<close>
  "crateFit =
     \<lparr>validMinX = - 0.25, validMaxX = 0.25, validMinY = - 0.25, validMaxY = 0.25,
      canFit = True, originalHeight = 0\<rparr>"

section \<open>Selection and transform interaction (SelectionManager, App)\<close>

text \<open>
  The fields of the class, with the three properties of \<open>TransformControls\<close> the class
  reads or sets (\<open>mode\<close>, the attached \<open>object\<close>, \<open>dragging\<close>). The callback
  \<open>onSelectionChange\<close> is the provider's \<open>setSelectedAsset\<close>; its calls are kept, in
  order, in \<open>selectionChanges\<close>.
\<close>

datatype TransformMode = Translate | Rotate | Scale

datatype GizmoTarget = AssetObject objref | BoundsProxy

record SelectionManager =
  sm_assets :: "LoadedAsset list"
  sm_selectedAsset :: "LoadedAsset option"
  highlightBox :: "objref option"
  hasBoundsMesh :: bool
  sm_isRandomizeMode :: bool
  isBoundsSelected :: bool
  dragStartTransform :: "TransformSnapshot option"
  wasDragging :: bool
  mouseDownPos :: "(real \<times> real) option"
  tc_mode :: TransformMode
  tc_object :: "GizmoTarget option"
  tc_dragging :: bool
  selectionChanges :: "LoadedAsset option list"

datatype EventTarget = HTMLInputElement | HTMLTextAreaElement | OtherElement

record KeyboardEvent =
  ev_key :: string
  ev_target :: EventTarget
  ctrlKey :: bool
  metaKey :: bool
  shiftKey :: bool

record MouseEvent =
  clientX :: real
  clientY :: real

record DOMRect =
  rect_left :: real
  rect_top :: real
  rect_width :: real
  rect_height :: real

definition setAssets :: "LoadedAsset list \<Rightarrow> SelectionManager \<Rightarrow> SelectionManager" where
  "setAssets as sm = sm\<lparr>sm_assets := as\<rparr>"

definition select :: "LoadedAsset option \<Rightarrow> SelectionManager \<Rightarrow> SelectionManager" where
  "select asset sm =
     (let sm1 = sm\<lparr>highlightBox := None, sm_selectedAsset := asset\<rparr>;
          sm2 = (case asset of
                   Some a \<Rightarrow> sm1\<lparr>tc_object := Some (AssetObject (object a)),
                                highlightBox := Some (object a)\<rparr>
                 | None \<Rightarrow> sm1\<lparr>tc_object := None\<rparr>)
      in sm2\<lparr>selectionChanges := selectionChanges sm2 @ [asset]\<rparr>)"

definition setMode :: "TransformMode \<Rightarrow> SelectionManager \<Rightarrow> SelectionManager" where
  "setMode mode sm = sm\<lparr>tc_mode := mode\<rparr>"

definition attachToBoundsMesh :: "SelectionManager \<Rightarrow> SelectionManager" where
  "attachToBoundsMesh sm =
     sm\<lparr>hasBoundsMesh := True, sm_isRandomizeMode := True, isBoundsSelected := True,
        tc_object := Some BoundsProxy, tc_mode := Translate\<rparr>"

definition detachBoundsMesh :: "SelectionManager \<Rightarrow> SelectionManager" where
  "detachBoundsMesh sm =
     sm\<lparr>hasBoundsMesh := False, sm_isRandomizeMode := False, isBoundsSelected := False,
        tc_object := None\<rparr>"

definition selectBounds :: "SelectionManager \<Rightarrow> SelectionManager" where
  "selectBounds sm =
     (if \<not> sm_isRandomizeMode sm \<or> \<not> hasBoundsMesh sm then sm
      else sm\<lparr>highlightBox := None, sm_selectedAsset := None, isBoundsSelected := True,
             tc_object := Some BoundsProxy,
             selectionChanges := selectionChanges sm @ [None]\<rparr>)"

definition onMouseDown :: "MouseEvent \<Rightarrow> SelectionManager \<Rightarrow> SelectionManager" where
  "onMouseDown event sm =
     sm\<lparr>mouseDownPos := Some (clientX event, clientY event), wasDragging := False\<rparr>"

text \<open>
  \<open>object.traverse\<close> visits the nodes of the object's hierarchy; \<open>meshesOf\<close> are the
  visited nodes with \<open>isMesh\<close>, \<open>pickableMeshes\<close> the list the click handler collects
  from the assets that are not locked.
\<close>

definition meshesOf :: "(objref \<Rightarrow> Object3D) \<Rightarrow> LoadedAsset \<Rightarrow> nat list" where
  "meshesOf objs asset = map fst (filter snd (nodes (objs (object asset))))"

fun pickableMeshes :: "(objref \<Rightarrow> Object3D) \<Rightarrow> LoadedAsset list \<Rightarrow> nat list" where
  "pickableMeshes objs [] = []"
| "pickableMeshes objs (asset # as) =
     (if locked asset then pickableMeshes objs as
      else meshesOf objs asset @ pickableMeshes objs as)"

definition ownsNode :: "(objref \<Rightarrow> Object3D) \<Rightarrow> nat \<Rightarrow> LoadedAsset \<Rightarrow> bool" where
  \<comment> \<open>\<open>asset.object.traverse(child => { if (child === hitObject) found = true })\<close>\<close>
  "ownsNode objs hitObject asset = list_ex (\<lambda>child. fst child = hitObject) (nodes (objs (object asset)))"

fun findOwner :: "(objref \<Rightarrow> Object3D) \<Rightarrow> nat \<Rightarrow> LoadedAsset list \<Rightarrow> LoadedAsset option" where
  "findOwner objs hitObject [] = None"
| "findOwner objs hitObject (asset # as) =
     (if locked asset then findOwner objs hitObject as
      else if ownsNode objs hitObject asset then Some asset
      else findOwner objs hitObject as)"

text \<open>
  The click handler. The ray cast (\<open>raycaster.intersectObjects(meshes, false)\<close> after
  \<open>setFromCamera\<close>) is a service of the rendering layer, the parameter \<open>intersectObjects\<close>:
  from the pointer in normalized device coordinates and the candidate meshes it returns
  the hit objects, nearest first.
\<close>

definition movedTooFar :: "MouseEvent \<Rightarrow> SelectionManager \<Rightarrow> bool" where
  \<comment> \<open>the test on \<open>mouseDownPos\<close>: the pointer moved more than 5 pixels since mouse-down\<close>
  "movedTooFar event sm =
     (case mouseDownPos sm of
        None \<Rightarrow> False
      | Some p \<Rightarrow>
          (let dx = clientX event - fst p; dy = clientY event - snd p;
               distance = sqrt (dx * dx + dy * dy)
           in distance > 5))"

definition pick ::
  "(real \<times> real \<Rightarrow> nat list \<Rightarrow> nat list) \<Rightarrow> DOMRect \<Rightarrow> (objref \<Rightarrow> Object3D) \<Rightarrow> MouseEvent
     \<Rightarrow> SelectionManager \<Rightarrow> SelectionManager" where
  \<comment> \<open>the part of the click handler after the click-or-drag tests\<close>
  "pick intersectObjects rect objs event sm =
     (let mouse = (((clientX event - rect_left rect) / rect_width rect) * 2 - 1,
                   - ((clientY event - rect_top rect) / rect_height rect) * 2 + 1);
          meshes = pickableMeshes objs (sm_assets sm);
          intersects = intersectObjects mouse meshes
      in case intersects of
           hitObject # rest \<Rightarrow>
             (case findOwner objs hitObject (sm_assets sm) of
                Some asset \<Rightarrow>
                  select (Some asset)
                    (if sm_isRandomizeMode sm then sm\<lparr>isBoundsSelected := False\<rparr> else sm)
              | None \<Rightarrow> sm)
         | [] \<Rightarrow>
             (if sm_isRandomizeMode sm then selectBounds sm else select None sm))"

definition onClick ::
  "(real \<times> real \<Rightarrow> nat list \<Rightarrow> nat list) \<Rightarrow> DOMRect \<Rightarrow> (objref \<Rightarrow> Object3D) \<Rightarrow> MouseEvent
     \<Rightarrow> SelectionManager \<Rightarrow> SelectionManager" where
  "onClick intersectObjects rect objs event sm =
     (if tc_dragging sm then sm
      else if wasDragging sm then sm\<lparr>wasDragging := False\<rparr>
      else if movedTooFar event sm then sm\<lparr>mouseDownPos := None\<rparr>
      else pick intersectObjects rect objs event (sm\<lparr>mouseDownPos := None\<rparr>))"

text \<open>\<open>String.prototype.toLowerCase\<close> on the key names, which are ASCII.\<close>

definition toLowerChar :: "char \<Rightarrow> char" where
  "toLowerChar c =
     (let n = (of_char c :: nat) in if 65 \<le> n \<and> n \<le> 90 then char_of (n + 32) else c)"

definition toLowerCase :: "string \<Rightarrow> string" where
  "toLowerCase s = map toLowerChar s"

definition onKeyDown :: "KeyboardEvent \<Rightarrow> SelectionManager \<Rightarrow> SelectionManager" where
  "onKeyDown event sm =
     (if ev_target event = HTMLInputElement then sm
      else (let k = toLowerCase (ev_key event)
            in if k = ''g'' then setMode Translate sm
               else if k = ''r'' then setMode Rotate sm
               else if k = ''s'' then setMode Scale sm
               else if k = ''escape'' then select None sm
               else sm))"

text \<open>The undo/redo key handler of \<open>App\<close>, registered on the same \<open>keydown\<close> event.\<close>

definition handleKeyDown :: "KeyboardEvent \<Rightarrow> App \<Rightarrow> App" where
  "handleKeyDown e sh =
     (if ev_target e = HTMLInputElement \<or> ev_target e = HTMLTextAreaElement then sh
      else (let sh1 = (if (ctrlKey e \<or> metaKey e) \<and> ev_key e = ''z''
                       then (if shiftKey e then redo sh else undo sh)
                       else sh)
            in if (ctrlKey e \<or> metaKey e) \<and> ev_key e = ''y'' then redo sh1 else sh1))"

subsection \<open>An example manager and key events\<close>

definition exampleManager :: SelectionManager where
  "exampleManager =
     \<lparr>sm_assets = [tableAsset, crateAsset], sm_selectedAsset = Some crateAsset,
      highlightBox = Some 1, hasBoundsMesh = False, sm_isRandomizeMode = False,
      isBoundsSelected = False, dragStartTransform = None, wasDragging = False,
      mouseDownPos = None, tc_mode = Translate, tc_object = Some (AssetObject 1),
      tc_dragging = False, selectionChanges = []\<rparr>"

definition keyIn :: "EventTarget \<Rightarrow> string \<Rightarrow> KeyboardEvent" where
  "keyIn t k = \<lparr>ev_key = k, ev_target = t, ctrlKey = False, metaKey = False, shiftKey = False\<rparr>"

definition lockedTable :: LoadedAsset where
  "lockedTable = tableAsset\<lparr>locked := True\<rparr>"

definition pickObjects :: "objref \<Rightarrow> Object3D" where
  \<comment> \<open>object \<open>r\<close> is a single mesh, node \<open>10 + r\<close>\<close>
  "pickObjects = (\<lambda>r. (objectWith cubeGeometry)\<lparr>nodes := [(10 + r, True)]\<rparr>)"

definition pickManager :: SelectionManager where
  "pickManager =
     exampleManager\<lparr>sm_assets := [lockedTable, crateAsset], sm_selectedAsset := None,
       highlightBox := None, tc_object := None\<rparr>"

definition canvasRect :: DOMRect where
  "canvasRect = \<lparr>rect_left = 0, rect_top = 0, rect_width = 800, rect_height = 600\<rparr>"

definition clickAt :: "real \<Rightarrow> real \<Rightarrow> MouseEvent" where
  "clickAt px py = \<lparr>clientX = px, clientY = py\<rparr>"

definition hitEverything :: "real \<times> real \<Rightarrow> nat list \<Rightarrow> nat list" where
  \<comment> \<open>a ray that meets every candidate mesh, in the order given\<close>
  "hitEverything mouse meshes = meshes"

section \<open>The spawn-bounds proxy\<close>

text \<open>
  The proxy is a three.js \<open>Mesh\<close> over a \<open>PlaneGeometry(width, height)\<close>; of the mesh
  the two geometry parameters, the position, the Euler rotation and the scale are kept.
\<close>

record Mesh =
  geom_width :: real
  geom_height :: real
  mesh_position :: Vector3
  mesh_rotation :: Vector3
  mesh_scale :: Vector3

definition createBoundsMesh :: "SpawnBounds \<Rightarrow> Mesh" where
  "createBoundsMesh bounds =
     (let sizeX = maxX bounds - minX bounds;
          sizeY = maxY bounds - minY bounds;
          centerX = (minX bounds + maxX bounds) / 2;
          centerY = (minY bounds + maxY bounds) / 2
      in \<lparr>geom_width = sizeX, geom_height = sizeY,
          mesh_position = Vector3 centerX 0 (- centerY),
          mesh_rotation = Vector3 (- pi / 2) 0 0,
          mesh_scale = Vector3 1 1 1\<rparr>)"

definition boundsFromMesh :: "Mesh \<Rightarrow> SpawnBounds" where
  \<comment> \<open>\<open>newBounds\<close> of \<open>updateBoundsFromMesh\<close>\<close>
  "boundsFromMesh mesh =
     (let pos = mesh_position mesh;
          sizeX = geom_width mesh * vx (mesh_scale mesh);
          sizeY = geom_height mesh * vz (mesh_scale mesh)
      in \<lparr>minX = vx pos - sizeX / 2, maxX = vx pos + sizeX / 2,
          minY = - vz pos - sizeY / 2, maxY = - vz pos + sizeY / 2\<rparr>)"

definition updateBoundsFromMesh :: "Mesh \<Rightarrow> Scene \<Rightarrow> Scene" where
  \<comment> \<open>the wireframe helper that is rebuilt as well is presentation\<close>
  "updateBoundsFromMesh mesh s = setSpawnBoundsState (boundsFromMesh mesh) s"

subsection \<open>The same two functions in binary64 arithmetic\<close>

text \<open>
  A JavaScript \<open>number\<close> is an IEEE 754 binary64 value, and every arithmetic operation
  rounds its exact result to the nearest such value, ties to the even significand. Here
  the rounding is written out, on the finite range (overflow to infinity is left out):
  \<open>round64 x\<close> is the multiple of the unit in the last place of \<open>x\<close> nearest to \<open>x\<close>,
  the unit being \<open>2 ^ (e - 52)\<close> for \<open>2 ^ e \<le> |x| < 2 ^ (e + 1)\<close>, and
  \<open>2 ^ - 1074\<close> below \<open>2 ^ - 1022\<close>.
\<close>

fun bitLength :: "nat \<Rightarrow> nat" where
  "bitLength n = (if n = 0 then 0 else Suc (bitLength (n div 2)))"

declare bitLength.simps [simp del]

definition pow2 :: "int \<Rightarrow> real" where
  "pow2 e = (if e \<ge> 0 then 2 ^ nat e else 1 / 2 ^ nat (- e))"

definition exponentOf :: "real \<Rightarrow> int" where
  \<comment> \<open>for \<open>x \<noteq> 0\<close>, the \<open>e\<close> with \<open>2 ^ e \<le> |x| < 2 ^ (e + 1)\<close>\<close>
  "exponentOf x =
     (let a = \<bar>x\<bar>
      in if a \<ge> 1 then int (bitLength (nat \<lfloor>a\<rfloor>)) - 1
         else (let k = int (bitLength (nat \<lfloor>1 / a\<rfloor>))
               in if a = pow2 (1 - k) then 1 - k else - k))"

definition roundHalfEven :: "real \<Rightarrow> int" where
  "roundHalfEven y =
     (let f = \<lfloor>y\<rfloor>; r = y - of_int f
      in if r < 1 / 2 then f
         else if r > 1 / 2 then f + 1
         else if even f then f else f + 1)"

definition round64 :: "real \<Rightarrow> real" where
  "round64 x =
     (if x = 0 then 0
      else (let e = max (exponentOf x) (- 1022); ulp = pow2 (e - 52)
            in of_int (roundHalfEven (x / ulp)) * ulp))"

definition fadd :: "real \<Rightarrow> real \<Rightarrow> real" where
  "fadd a b = round64 (a + b)"

definition fsub :: "real \<Rightarrow> real \<Rightarrow> real" where
  "fsub a b = round64 (a - b)"

definition fmul :: "real \<Rightarrow> real \<Rightarrow> real" where
  "fmul a b = round64 (a * b)"

definition fdiv :: "real \<Rightarrow> real \<Rightarrow> real" where
  "fdiv a b = round64 (a / b)"

definition createBoundsMesh64 :: "SpawnBounds \<Rightarrow> Mesh" where
  "createBoundsMesh64 bounds =
     (let sizeX = fsub (maxX bounds) (minX bounds);
          sizeY = fsub (maxY bounds) (minY bounds);
          centerX = fdiv (fadd (minX bounds) (maxX bounds)) 2;
          centerY = fdiv (fadd (minY bounds) (maxY bounds)) 2
      in \<lparr>geom_width = sizeX, geom_height = sizeY,
          mesh_position = Vector3 centerX 0 (- centerY),
          mesh_rotation = Vector3 (fdiv (- round64 pi) 2) 0 0,
          mesh_scale = Vector3 1 1 1\<rparr>)"

definition boundsFromMesh64 :: "Mesh \<Rightarrow> SpawnBounds" where
  "boundsFromMesh64 mesh =
     (let pos = mesh_position mesh;
          sizeX = fmul (geom_width mesh) (vx (mesh_scale mesh));
          sizeY = fmul (geom_height mesh) (vz (mesh_scale mesh))
      in \<lparr>minX = fsub (vx pos) (fdiv sizeX 2), maxX = fadd (vx pos) (fdiv sizeX 2),
          minY = fsub (- vz pos) (fdiv sizeY 2), maxY = fadd (- vz pos) (fdiv sizeY 2)\<rparr>)"

definition typedBounds :: SpawnBounds where
  \<comment> \<open>the bounds a user gets by typing 0.1, 0.2, -0.3 and 0.3 into the four fields\<close>
  "typedBounds =
     \<lparr>minX = round64 (1 / 10), maxX = round64 (1 / 5),
      minY = round64 (- (3 / 10)), maxY = round64 (3 / 10)\<rparr>"

section \<open>Sequences of commands\<close>

text \<open>
  The state a user can observe and that commands change: the registry (the assets and
  the objects they refer to), the spawn bounds, the instruction text and the saved
  conditions. The selection and \<open>savedPoses\<close> are not recorded by any command.
\<close>

definition observed ::
  "Scene \<Rightarrow> LoadedAsset list \<times> (objref \<Rightarrow> Object3D) \<times> SpawnBounds \<times> string \<times> SavedCondition list"
  where
  "observed s = (assets s, objects s, spawnBounds s, instruction s, savedConditions s)"

text \<open>
  A step of a session: the caller performs its action on the scene, leaving the scene
  \<open>s'\<close>, and pushes the command \<open>c\<close> it has built. \<open>runSteps\<close> performs a sequence of
  steps. A step is legal when the command was built for the state it is pushed in: on
  the observed state, its \<open>execute\<close> does what the caller did and its \<open>undo\<close> takes the
  scene back.
\<close>

fun runSteps :: "(Command \<times> Scene) list \<Rightarrow> App \<Rightarrow> App" where
  "runSteps [] sh = sh"
| "runSteps (step # rest) sh = runSteps rest (snd step, pushCommand (fst step) (snd sh))"

fun legalSteps :: "Scene \<Rightarrow> (Command \<times> Scene) list \<Rightarrow> bool" where
  "legalSteps s [] = True"
| "legalSteps s (step # rest) =
     (observed (command_execute (fst step) s) = observed (snd step)
      \<and> observed (command_undo (fst step) (snd step)) = observed s
      \<and> legalSteps (snd step) rest)"

subsection \<open>An example session\<close>

definition session1 :: App where
  "session1 = toggleAssetGravity ''table'' (tableCrateScene, emptyHistory)"

definition session2 :: App where
  \<comment> \<open>the instruction is typed, then the field loses focus\<close>
  "session2 =
     createInstructionCommand [] ''stack'' (setInstruction ''stack'' (fst session1), snd session1)"

definition session3 :: App where
  "session3 = saveCurrentCondition session2"

definition sessionSteps :: "(Command \<times> Scene) list" where
  "sessionSteps =
     [(ToggleGravityCmd ''table'', fst session1),
      (InstructionCmd [] ''stack'', fst session2),
      (SaveConditionCmd \<lparr>poses = capturePoses (fst session2)\<rparr>, fst session3)]"

section \<open>Properties of the command history\<close>

lemma pushCommand_undoStack:
  "undoStack (pushCommand c h) =
     (if length (undoStack h) < MAX_HISTORY_SIZE then undoStack h @ [c]
      else drop (Suc (length (undoStack h)) - MAX_HISTORY_SIZE) (undoStack h @ [c]))"
  by (simp add: pushCommand_def Let_def)

lemma pushCommand_redoStack [simp]: "redoStack (pushCommand c h) = []"
  by (simp add: pushCommand_def Let_def)

lemma pushCommand_length_le: "length (undoStack (pushCommand c h)) \<le> MAX_HISTORY_SIZE"
  by (simp add: pushCommand_undoStack MAX_HISTORY_SIZE_def)

lemma pushCommand_full:
  assumes "length (undoStack h) = MAX_HISTORY_SIZE"
  shows "undoStack (pushCommand c h) = tl (undoStack h) @ [c]"
proof -
  from assms have ne: "undoStack h \<noteq> []"
    by (auto simp: MAX_HISTORY_SIZE_def)
  have "undoStack (pushCommand c h) = drop 1 (undoStack h @ [c])"
    using assms by (simp add: pushCommand_undoStack)
  also have "\<dots> = tl (undoStack h) @ [c]"
    using ne by (cases "undoStack h") simp_all
  finally show ?thesis .
qed

lemma reachable_total_le:
  "reachableHistory h \<Longrightarrow> length (undoStack h) + length (redoStack h) \<le> MAX_HISTORY_SIZE"
proof (induction rule: reachableHistory.induct)
  case reach_init
  show ?case by (simp add: emptyHistory_def)
next
  case (reach_push h c)
  show ?case using pushCommand_length_le [of c h] by simp
next
  case (reach_undo h)
  then show ?case by (cases "undoStack h") (auto simp: undoWith_def Let_def)
next
  case (reach_redo h)
  then show ?case by (cases "redoStack h") (auto simp: redoWith_def Let_def)
next
  case (reach_clear h)
  show ?case by (simp add: clear_def)
qed

text \<open>
  Claim C2. The undo stack never holds more than 50 entries: after any
  \<open>pushCommand\<close>, from whatever history, the undo stack has at most 50 entries;
  pushing onto an undo stack of exactly 50 entries drops exactly the oldest entry and
  keeps the others, in order, followed by the new command; and every history that
  push, undo, redo and clear can produce from the empty one has at most 50 undo entries.
\<close>

theorem C2_undo_stack_bounded:
  "length (undoStack (pushCommand c h)) \<le> 50
   \<and> (length (undoStack h) = 50 \<longrightarrow>
        undoStack (pushCommand c h) = tl (undoStack h) @ [c]
        \<and> length (undoStack (pushCommand c h)) = 50)
   \<and> (reachableHistory h' \<longrightarrow> length (undoStack h') \<le> 50)"
proof (intro conjI impI)
  show "length (undoStack (pushCommand c h)) \<le> 50"
    using pushCommand_length_le [of c h] by (simp add: MAX_HISTORY_SIZE_def)
next
  assume full: "length (undoStack h) = 50"
  then show "undoStack (pushCommand c h) = tl (undoStack h) @ [c]"
    by (simp add: pushCommand_full MAX_HISTORY_SIZE_def)
  with full show "length (undoStack (pushCommand c h)) = 50"
    by simp
next
  assume "reachableHistory h'"
  from reachable_total_le [OF this] show "length (undoStack h') \<le> 50"
    by (simp add: MAX_HISTORY_SIZE_def)
qed

theorem C2_undo_stack_bounded_witness:
  "length (undoStack \<lparr>undoStack = [1 ..< 51], redoStack = [7::nat]\<rparr>) = 50
   \<and> undoStack (pushCommand 51 \<lparr>undoStack = [1 ..< 51], redoStack = [7::nat]\<rparr>)
       = [2 ..< 52]
   \<and> reachableHistory (pushCommand (1::nat) emptyHistory)
   \<and> length (undoStack (pushCommand (1::nat) emptyHistory)) \<le> 50"
proof -
  let ?h = "\<lparr>undoStack = [1 ..< 51], redoStack = [7::nat]\<rparr>"
  have len: "length (undoStack ?h) = 50" by simp
  have r: "reachableHistory (pushCommand (1::nat) emptyHistory)"
    by (rule reach_push [OF reach_init])
  have tl_eq: "tl [1 ..< 51] @ [51] = [2 ..< (52::nat)]"
    by (simp add: upt_rec)
  from C2_undo_stack_bounded [of 51 ?h "pushCommand (1::nat) emptyHistory"] len r tl_eq
  show ?thesis by simp
qed

section \<open>Properties of the randomized placement\<close>

lemma getAssetLocalSize_restores: "snd (getAssetLocalSize bb asset q objs) = objs"
  by (simp add: getAssetLocalSize_def Let_def fun_eq_iff)

lemma attemptPlacement_frame:
  "r \<noteq> object asset \<Longrightarrow>
     pl_objects (attemptPlacement bb rand bounds asset sp fit st) r = pl_objects st r"
  by (simp add: attemptPlacement_def Let_def)

lemma attemptPlacement_log:
  "placedLog (attemptPlacement bb rand bounds asset sp fit st) = placedLog st"
  by (simp add: attemptPlacement_def Let_def)

lemma attempts_placed: "placed st \<Longrightarrow> attempts bb rand bounds asset sp fit n st = st"
  by (cases n) simp_all

lemma attempts_frame:
  "r \<noteq> object asset \<Longrightarrow>
     pl_objects (attempts bb rand bounds asset sp fit n st) r = pl_objects st r"
  by (induction n arbitrary: st) (simp_all add: attemptPlacement_frame)

lemma attempts_log:
  "placedLog (attempts bb rand bounds asset sp fit n st) = placedLog st"
  by (induction n arbitrary: st) (simp_all add: attemptPlacement_log)

lemma placeAsset_frame:
  "r \<noteq> object asset \<Longrightarrow>
     pl_objects (placeAsset bb rand bounds pm st asset) r = pl_objects st r"
  by (simp add: placeAsset_def Let_def attempts_frame getAssetLocalSize_restores)

lemma placeAsset_log:
  "\<exists>b. placedLog (placeAsset bb rand bounds pm st asset) = placedLog st @ [b]"
  by (simp add: placeAsset_def Let_def attempts_log)

lemma foldl_placeAsset_frame:
  "r \<notin> object ` set as \<Longrightarrow>
     pl_objects (foldl (placeAsset bb rand bounds pm) st as) r = pl_objects st r"
  by (induction as arbitrary: st) (simp_all add: placeAsset_frame)

lemma foldl_placeAsset_log:
  "\<exists>bs. placedLog (foldl (placeAsset bb rand bounds pm) st as) = placedLog st @ bs"
proof (induction as arbitrary: st)
  case Nil
  show ?case by simp
next
  case (Cons a as)
  obtain b where b: "placedLog (placeAsset bb rand bounds pm st a) = placedLog st @ [b]"
    using placeAsset_log by blast
  from Cons [of "placeAsset bb rand bounds pm st a"] b show ?case by auto
qed

lemma attemptPlacement_within:
  assumes "canFit fit" "placed (attemptPlacement bb rand bounds asset sp fit st)" "\<not> placed st"
  shows "isBoxWithinSpawnBounds bounds
           (bb (pl_objects (attemptPlacement bb rand bounds asset sp fit st) (object asset)))"
  using assms
  by (auto simp: attemptPlacement_def Let_def getAssetBoundingBox_def split: if_splits)

lemma attempts_within:
  assumes "canFit fit"
  shows "\<not> placed st \<Longrightarrow> placed (attempts bb rand bounds asset sp fit n st) \<Longrightarrow>
     isBoxWithinSpawnBounds bounds
       (bb (pl_objects (attempts bb rand bounds asset sp fit n st) (object asset)))"
proof (induction n arbitrary: st)
  case 0
  then show ?case by simp
next
  case (Suc n)
  let ?st1 = "attemptPlacement bb rand bounds asset sp fit st"
  show ?case
  proof (cases "placed ?st1")
    case True
    with Suc.prems assms show ?thesis
      by (simp add: attempts_placed attemptPlacement_within)
  next
    case False
    with Suc.prems Suc.IH [of ?st1] show ?thesis by simp
  qed
qed

lemma fitOf_cong:
  "objs (object asset) = objs' (object asset) \<Longrightarrow>
     fitOf bb bounds pm asset objs = fitOf bb bounds pm asset objs'"
  by (cases "map_of pm (asset_id asset)") (simp_all add: fitOf_def getAssetLocalSize_def Let_def)

lemma placeAsset_within:
  assumes "canFit (fitOf bb bounds pm asset (pl_objects st))"
      and "last (placedLog (placeAsset bb rand bounds pm st asset))"
  shows "isBoxWithinSpawnBounds bounds
           (bb (pl_objects (placeAsset bb rand bounds pm st asset) (object asset)))"
proof -
  let ?sp = "map_of pm (asset_id asset)"
  let ?fit = "fitOf bb bounds pm asset (pl_objects st)"
  let ?st0 = "st\<lparr>pl_objects := pl_objects st, placed := False\<rparr>"
  let ?st1 = "attempts bb rand bounds asset ?sp ?fit maxAttempts ?st0"
  from assms(2) have pl: "placed ?st1"
    by (simp add: placeAsset_def Let_def getAssetLocalSize_restores)
  have "isBoxWithinSpawnBounds bounds (bb (pl_objects ?st1 (object asset)))"
    by (rule attempts_within [OF assms(1) _ pl]) simp
  with pl show ?thesis
    by (simp add: placeAsset_def Let_def getAssetLocalSize_restores)
qed

lemma foldl_placeAsset_within:
  assumes "distinct (map object as)" "j < length as"
      and "canFit (fitOf bb bounds pm (as ! j) (pl_objects st))"
      and "placedLog (foldl (placeAsset bb rand bounds pm) st as) ! (length (placedLog st) + j)"
  shows "isBoxWithinSpawnBounds bounds
           (bb (pl_objects (foldl (placeAsset bb rand bounds pm) st as) (object (as ! j))))"
  using assms
proof (induction as arbitrary: st j)
  case Nil
  then show ?case by simp
next
  case (Cons a as)
  let ?st1 = "placeAsset bb rand bounds pm st a"
  obtain b where b: "placedLog ?st1 = placedLog st @ [b]"
    using placeAsset_log by blast
  obtain bs where bs: "placedLog (foldl (placeAsset bb rand bounds pm) ?st1 as) = placedLog ?st1 @ bs"
    using foldl_placeAsset_log by blast
  show ?case
  proof (cases j)
    case 0
    from Cons.prems(4) 0 b bs have "b" by (simp add: nth_append)
    with b have lastb: "last (placedLog ?st1)" by simp
    from Cons.prems(3) 0 have cf: "canFit (fitOf bb bounds pm a (pl_objects st))" by simp
    have w: "isBoxWithinSpawnBounds bounds (bb (pl_objects ?st1 (object a)))"
      by (rule placeAsset_within [OF cf lastb])
    from Cons.prems(1) have "object a \<notin> object ` set as" by auto
    then have "pl_objects (foldl (placeAsset bb rand bounds pm) ?st1 as) (object a)
                 = pl_objects ?st1 (object a)"
      by (rule foldl_placeAsset_frame)
    with w 0 show ?thesis by simp
  next
    case (Suc j')
    from Cons.prems(2) Suc have "as ! j' \<in> set as" by simp
    then have "object (as ! j') \<in> object ` set as" by (rule imageI)
    moreover from Cons.prems(1) have "object a \<notin> object ` set as" by simp
    ultimately have ne: "object (as ! j') \<noteq> object a" by metis
    then have "pl_objects ?st1 (object (as ! j')) = pl_objects st (object (as ! j'))"
      by (rule placeAsset_frame)
    then have "fitOf bb bounds pm (as ! j') (pl_objects ?st1)
                 = fitOf bb bounds pm (as ! j') (pl_objects st)"
      by (rule fitOf_cong)
    with Cons.prems(3) Suc have cf: "canFit (fitOf bb bounds pm (as ! j') (pl_objects ?st1))"
      by simp
    from Cons.prems(4) Suc b
    have lg: "placedLog (foldl (placeAsset bb rand bounds pm) ?st1 as) ! (length (placedLog ?st1) + j')"
      by simp
    from Cons.prems(1,2) Suc have d: "distinct (map object as)" and j': "j' < length as"
      by simp_all
    from Cons.IH [OF d j' cf lg] Suc show ?thesis by simp
  qed
qed

subsection \<open>Evaluation on the example scenes\<close>

lemma halfturn: "setFromAxisAngle (Vector3 0 1 0) pi = Quaternion 0 1 0 0"
  by (simp add: setFromAxisAngle_def Let_def)

lemma premultiply_identity: "premultiply (Quaternion 0 0 0 1) q = q"
  by (cases q) (simp add: premultiply_def multiplyQuaternions_def)

lemma box_cube_identity:
  assumes "geometry ob = cubeGeometry" "scale ob = Vector3 1 1 1"
    "position ob = Vector3 0 0 0" "quaternion ob = Quaternion 0 0 0 1"
  shows "setFromObject ob = Box3 (Vector3 (- 0.05) (- 0.05) (- 0.05)) (Vector3 0.05 0.05 0.05)"
  using assms
  by (simp add: setFromObject_def cubeGeometry_def localToWorld_def applyQuaternion_def Let_def)

lemma box_cube_halfturn:
  assumes "geometry ob = cubeGeometry" "scale ob = Vector3 1 1 1"
    "position ob = Vector3 0 0 0" "quaternion ob = Quaternion 0 1 0 0"
  shows "setFromObject ob = Box3 (Vector3 (- 0.05) (- 0.05) (- 0.05)) (Vector3 0.05 0.05 0.05)"
  using assms
  by (simp add: setFromObject_def cubeGeometry_def localToWorld_def applyQuaternion_def Let_def)

lemma box_far_identity:
  assumes "geometry ob = farGeometry" "scale ob = Vector3 1 1 1"
    "position ob = Vector3 0 0 0" "quaternion ob = Quaternion 0 0 0 1"
  shows "setFromObject ob = Box3 (Vector3 10 (- 0.05) (- 0.05)) (Vector3 10.1 0.05 0.05)"
  using assms
  by (simp add: setFromObject_def farGeometry_def localToWorld_def applyQuaternion_def Let_def)

lemma box_far_halfturn:
  assumes "geometry ob = farGeometry" "scale ob = Vector3 1 1 1"
    "position ob = Vector3 0 0 0" "quaternion ob = Quaternion 0 1 0 0"
  shows "setFromObject ob = Box3 (Vector3 (- 10.1) (- 0.05) (- 0.05)) (Vector3 (- 10) 0.05 0.05)"
  using assms
  by (simp add: setFromObject_def farGeometry_def localToWorld_def applyQuaternion_def Let_def)

lemma fit_cube:
  assumes "geometry (objs 1) = cubeGeometry" "scale (objs 1) = Vector3 1 1 1"
  shows "fitOf setFromObject DEFAULT_SPAWN_BOUNDS [(''crate'', originPose)] crateAsset objs
           = crateFit"
  using assms
  by (simp add: fitOf_def getAssetLocalSize_def Let_def crateAsset_def assetWith_def
        originPose_def box_cube_identity assetFit_def DEFAULT_SPAWN_BOUNDS_def crateFit_def)

lemma fit_far:
  assumes "geometry (objs 1) = farGeometry" "scale (objs 1) = Vector3 1 1 1"
  shows "fitOf setFromObject DEFAULT_SPAWN_BOUNDS [(''crate'', originPose)] crateAsset objs
           = crateFit"
  using assms
  by (simp add: fitOf_def getAssetLocalSize_def Let_def crateAsset_def assetWith_def
        originPose_def box_far_identity assetFit_def DEFAULT_SPAWN_BOUNDS_def crateFit_def)

lemma attempt_cube:
  assumes "geometry (pl_objects st 1) = cubeGeometry" "scale (pl_objects st 1) = Vector3 1 1 1"
    "placedBoxes st = []"
  shows "attemptPlacement setFromObject halfRand DEFAULT_SPAWN_BOUNDS crateAsset
           (Some originPose) crateFit st
     = st\<lparr>pl_objects := (pl_objects st)(1 := (pl_objects st 1)
                 \<lparr>position := Vector3 0 0 0, quaternion := Quaternion 0 1 0 0\<rparr>),
          randomCalls := randomCalls st + 3,
          placedBoxes := [Box3 (Vector3 (- 0.05) (- 0.05) (- 0.05)) (Vector3 0.05 0.05 0.05)],
          placed := True\<rparr>"
  using assms
  by (simp add: attemptPlacement_def Let_def crateFit_def halfturn crateAsset_def assetWith_def
        originPose_def premultiply_identity getAssetBoundingBox_def halfRand_def
        box_cube_halfturn DEFAULT_SPAWN_BOUNDS_def checkCollision_def)

lemma attempt_far:
  assumes "geometry (pl_objects st 1) = farGeometry" "scale (pl_objects st 1) = Vector3 1 1 1"
  shows "attemptPlacement setFromObject halfRand DEFAULT_SPAWN_BOUNDS crateAsset
           (Some originPose) crateFit st
     = st\<lparr>pl_objects := (pl_objects st)(1 := (pl_objects st 1)
                 \<lparr>position := Vector3 0 0 0, quaternion := Quaternion 0 1 0 0\<rparr>),
          randomCalls := randomCalls st + 3\<rparr>"
  using assms
  by (simp add: attemptPlacement_def Let_def crateFit_def halfturn crateAsset_def assetWith_def
        originPose_def premultiply_identity getAssetBoundingBox_def halfRand_def
        box_far_halfturn DEFAULT_SPAWN_BOUNDS_def checkCollision_def)

lemma attempts_unfold:
  "0 < n \<Longrightarrow> attempts bb rand bounds asset sp fit n st =
     (if placed st then st
      else attempts bb rand bounds asset sp fit (n - 1)
             (attemptPlacement bb rand bounds asset sp fit st))"
  by (cases n) simp_all

lemma attempts_far:
  assumes "geometry (pl_objects st 1) = farGeometry" "scale (pl_objects st 1) = Vector3 1 1 1"
    "\<not> placed st"
  shows "\<not> placed (attempts setFromObject halfRand DEFAULT_SPAWN_BOUNDS crateAsset
                    (Some originPose) crateFit (Suc n) st)
         \<and> pl_objects (attempts setFromObject halfRand DEFAULT_SPAWN_BOUNDS crateAsset
                    (Some originPose) crateFit (Suc n) st) 1
             = (pl_objects st 1)\<lparr>position := Vector3 0 0 0, quaternion := Quaternion 0 1 0 0\<rparr>"
  using assms
proof (induction n arbitrary: st)
  case 0
  then show ?case by (simp add: attempt_far)
next
  case (Suc n)
  let ?st1 = "attemptPlacement setFromObject halfRand DEFAULT_SPAWN_BOUNDS crateAsset
                (Some originPose) crateFit st"
  from Suc.prems have st1: "?st1 = st\<lparr>pl_objects := (pl_objects st)(1 := (pl_objects st 1)
                 \<lparr>position := Vector3 0 0 0, quaternion := Quaternion 0 1 0 0\<rparr>),
          randomCalls := randomCalls st + 3\<rparr>"
    by (simp add: attempt_far)
  with Suc.prems have p1: "geometry (pl_objects ?st1 1) = farGeometry"
      "scale (pl_objects ?st1 1) = Vector3 1 1 1" "\<not> placed ?st1"
    by simp_all
  from Suc.IH [OF p1] Suc.prems(3) st1 show ?case by simp
qed


subsection \<open>Captured poses and the example scenes\<close>

lemma foldl_update_nonempty:
  "m \<noteq> [] \<or> as \<noteq> [] \<Longrightarrow>
     foldl (\<lambda>m asset. AList.update (asset_id asset) (poseOf (objs (object asset))) m) m as \<noteq> []"
  by (induction as arbitrary: m) simp_all

lemma posesOf_empty_iff: "posesOf objs as = [] \<longleftrightarrow> as = []"
  using foldl_update_nonempty [of "[]" as objs] by (auto simp: posesOf_def)

lemma capturePoses_empty_iff: "capturePoses s = [] \<longleftrightarrow> filter isDynamic (assets s) = []"
  by (simp add: capturePoses_def posesOf_empty_iff)

lemma dynamicAssets_eq: "dynamicAssets as = filter isDynamic as"
  by (auto simp: dynamicAssets_def exportableAssets_def isDynamic_def intro: filter_cong)

lemma randomize_scene:
  "fst (randomizeNonStaticAssets bb rand sh) = doRandomizeNonStaticAssets bb rand (fst sh)"
  by (simp add: randomizeNonStaticAssets_def Let_def capturePoses_empty_iff
        doRandomizeNonStaticAssets_def)

lemma randomize_objects:
  "objects (fst (randomizeNonStaticAssets bb rand sh)) = pl_objects (runPlacement bb rand (fst sh))"
  by (simp add: randomize_scene doRandomizeNonStaticAssets_def Let_def runPlacement_def)

lemma dyn_tableCrate: "filter isDynamic (assets tableCrateScene) = [crateAsset]"
  by (simp add: tableCrateScene_def sceneWith_def crateAsset_def tableAsset_def assetWith_def
        isDynamic_def)

lemma dyn_crateOnly: "filter isDynamic (assets crateOnlyScene) = [crateAsset]"
  by (simp add: crateOnlyScene_def sceneWith_def crateAsset_def assetWith_def isDynamic_def)

lemma dyn_farCrate: "filter isDynamic (assets farCrateScene) = [crateAsset]"
  by (simp add: farCrateScene_def sceneWith_def crateAsset_def tableAsset_def assetWith_def
        isDynamic_def)

lemma poses_crate:
  "position (objs 1) = Vector3 0 0 0 \<Longrightarrow> quaternion (objs 1) = Quaternion 0 0 0 1 \<Longrightarrow>
     posesOf objs [crateAsset] = [(''crate'', originPose)]"
  by (simp add: posesOf_def crateAsset_def assetWith_def poseOf_def originPose_def)

lemma placeAsset_alt:
  "placeAsset bb rand bounds pm st asset =
     (let st1 = attempts bb rand bounds asset (map_of pm (asset_id asset))
                  (fitOf bb bounds pm asset (pl_objects st)) maxAttempts (st\<lparr>placed := False\<rparr>);
          st2 = (if \<not> placed st1
                 then st1\<lparr>placedBoxes := placedBoxes st1 @ [bb (pl_objects st1 (object asset))]\<rparr>
                 else st1)
      in st2\<lparr>placedLog := placedLog st2 @ [placed st1]\<rparr>)"
  by (simp add: placeAsset_def getAssetLocalSize_restores Let_def getAssetBoundingBox_def)

lemma crate_facts:
  "asset_id crateAsset = ''crate''" "object crateAsset = 1"
  "map_of [(''crate'', originPose)] (asset_id crateAsset) = Some originPose"
  by (simp_all add: crateAsset_def assetWith_def)

lemma place_cube:
  assumes "objs 1 = objectWith cubeGeometry"
  shows "placeAsset setFromObject halfRand DEFAULT_SPAWN_BOUNDS [(''crate'', originPose)]
           \<lparr>pl_objects = objs, placedBoxes = [], randomCalls = 0, placed = False,
            placedLog = []\<rparr> crateAsset
     = \<lparr>pl_objects = objs(1 := (objectWith cubeGeometry)\<lparr>quaternion := Quaternion 0 1 0 0\<rparr>),
        placedBoxes = [Box3 (Vector3 (- 0.05) (- 0.05) (- 0.05)) (Vector3 0.05 0.05 0.05)],
        randomCalls = 3, placed = True, placedLog = [True]\<rparr>"
proof -
  let ?st0 = "\<lparr>pl_objects = objs, placedBoxes = [], randomCalls = 0, placed = False,
            placedLog = []\<rparr>"
  let ?res = "\<lparr>pl_objects = objs(1 := (objectWith cubeGeometry)\<lparr>quaternion := Quaternion 0 1 0 0\<rparr>),
        placedBoxes = [Box3 (Vector3 (- 0.05) (- 0.05) (- 0.05)) (Vector3 0.05 0.05 0.05)],
        randomCalls = 3, placed = True, placedLog = []\<rparr>"
  from assms have g: "geometry (pl_objects ?st0 1) = cubeGeometry"
      "scale (pl_objects ?st0 1) = Vector3 1 1 1" "placedBoxes ?st0 = []"
    by (simp_all add: objectWith_def)
  have f: "fitOf setFromObject DEFAULT_SPAWN_BOUNDS [(''crate'', originPose)] crateAsset
             (pl_objects ?st0) = crateFit"
    using g by (intro fit_cube) simp_all
  have a1: "attemptPlacement setFromObject halfRand DEFAULT_SPAWN_BOUNDS crateAsset
              (Some originPose) crateFit ?st0 = ?res"
    using assms unfolding attempt_cube [OF g] by (simp add: objectWith_def)
  have m: "maxAttempts = Suc 99" by (simp add: maxAttempts_def)
  have "attempts setFromObject halfRand DEFAULT_SPAWN_BOUNDS crateAsset (Some originPose)
          crateFit maxAttempts ?st0
        = attempts setFromObject halfRand DEFAULT_SPAWN_BOUNDS crateAsset (Some originPose)
          crateFit 99 ?res"
    unfolding m attempts.simps a1 by simp
  also have "\<dots> = ?res"
    by (rule attempts_placed) simp
  finally have at: "attempts setFromObject halfRand DEFAULT_SPAWN_BOUNDS crateAsset
          (Some originPose) crateFit maxAttempts (?st0\<lparr>placed := False\<rparr>) = ?res"
    by simp
  show ?thesis
    using at f by (simp add: placeAsset_alt crate_facts Let_def)
qed

lemma attempts_far_boxes:
  "geometry (pl_objects st 1) = farGeometry \<Longrightarrow> scale (pl_objects st 1) = Vector3 1 1 1 \<Longrightarrow>
     placedBoxes (attempts setFromObject halfRand DEFAULT_SPAWN_BOUNDS crateAsset
       (Some originPose) crateFit n st) = placedBoxes st"
  by (induction n arbitrary: st) (simp_all add: attempt_far)

lemma place_far:
  assumes "objs 1 = objectWith farGeometry"
  shows "pl_objects (placeAsset setFromObject halfRand DEFAULT_SPAWN_BOUNDS
             [(''crate'', originPose)]
             \<lparr>pl_objects = objs, placedBoxes = [], randomCalls = 0, placed = False,
              placedLog = []\<rparr> crateAsset) 1
           = (objectWith farGeometry)\<lparr>quaternion := Quaternion 0 1 0 0\<rparr>
         \<and> placedLog (placeAsset setFromObject halfRand DEFAULT_SPAWN_BOUNDS
             [(''crate'', originPose)]
             \<lparr>pl_objects = objs, placedBoxes = [], randomCalls = 0, placed = False,
              placedLog = []\<rparr> crateAsset) = [False]"
proof -
  let ?st0 = "\<lparr>pl_objects = objs, placedBoxes = [], randomCalls = 0, placed = False,
           placedLog = []\<rparr>"
  let ?st1 = "attempts setFromObject halfRand DEFAULT_SPAWN_BOUNDS crateAsset (Some originPose)
          crateFit maxAttempts (?st0\<lparr>placed := False\<rparr>)"
  from assms have g: "geometry (pl_objects (?st0\<lparr>placed := False\<rparr>) 1) = farGeometry"
      "scale (pl_objects (?st0\<lparr>placed := False\<rparr>) 1) = Vector3 1 1 1"
      "\<not> placed (?st0\<lparr>placed := False\<rparr>)"
    by (simp_all add: objectWith_def)
  have m: "maxAttempts = Suc 99" by (simp add: maxAttempts_def)
  from attempts_far [OF g, of 99] assms
  have np: "\<not> placed ?st1"
    and ob: "pl_objects ?st1 1 = (objectWith farGeometry)\<lparr>quaternion := Quaternion 0 1 0 0\<rparr>"
    unfolding m by (simp_all add: objectWith_def)
  have lg: "placedLog ?st1 = []" by (simp add: attempts_log)
  have f: "fitOf setFromObject DEFAULT_SPAWN_BOUNDS [(''crate'', originPose)] crateAsset
             (pl_objects ?st0) = crateFit"
    using assms by (intro fit_far) (simp_all add: objectWith_def)
  show ?thesis
    using np ob lg f by (simp add: placeAsset_alt crate_facts Let_def)
qed

section \<open>Claims about randomization\<close>

lemma runPlacement_frame:
  "r \<notin> object ` set (filter isDynamic (assets s)) \<Longrightarrow>
     pl_objects (runPlacement bb rand s) r = objects s r"
  by (simp add: runPlacement_def Let_def foldl_placeAsset_frame)

lemma randomize_assets:
  "assets (fst (randomizeNonStaticAssets bb rand sh)) = assets (fst sh)"
  by (simp add: randomize_scene doRandomizeNonStaticAssets_def Let_def)

lemma staticAssets_not_dynamic: "a \<in> set (staticAssets as) \<Longrightarrow> \<not> isDynamic a"
  by (simp add: staticAssets_def isDynamic_def)

text \<open>
  Claim C3, as amended. After one \<open>randomize\<close>, a dynamic asset that can fit
  (\<open>canFit\<close>) and for which one of the at most 100 attempts was accepted (its \<open>placed\<close>
  flag ended true) has its world bounding box inside the spawn rectangle on the two
  placement-plane axes: \<open>minX \<le> x \<le> maxX\<close>, and \<open>minY \<le> -z \<le> maxY\<close> for the
  scene's z. Each dynamic asset is taken to own its object.
\<close>

theorem C3_accepted_asset_within_bounds:
  assumes "dyn = filter isDynamic (assets (fst sh))"
      and "distinct (map object dyn)"
      and "j < length dyn"
      and "canFit (fitOf bb (spawnBounds (fst sh)) (capturePoses (fst sh)) (dyn ! j)
                    (objects (fst sh)))"
      and "placedLog (runPlacement bb rand (fst sh)) ! j"
      and "box = bb (objects (fst (randomizeNonStaticAssets bb rand sh)) (object (dyn ! j)))"
  shows "isBoxWithinSpawnBounds (spawnBounds (fst sh)) box
         \<and> (case box of
               EmptyBox \<Rightarrow> True
             | Box3 mn mx \<Rightarrow>
                 minX (spawnBounds (fst sh)) \<le> vx mn \<and> vx mx \<le> maxX (spawnBounds (fst sh)) \<and>
                 minY (spawnBounds (fst sh)) \<le> - vz mx \<and> - vz mn \<le> maxY (spawnBounds (fst sh)))"
proof -
  let ?s = "fst sh"
  let ?st0 = "\<lparr>pl_objects = objects ?s, placedBoxes = [], randomCalls = 0,
               placed = False, placedLog = []\<rparr>"
  let ?pm = "posesOf (objects ?s) dyn"
  have run: "runPlacement bb rand ?s = foldl (placeAsset bb rand (spawnBounds ?s) ?pm) ?st0 dyn"
    by (simp add: runPlacement_def Let_def assms(1))
  have cf: "canFit (fitOf bb (spawnBounds ?s) ?pm (dyn ! j) (pl_objects ?st0))"
    using assms(4) by (simp add: capturePoses_def assms(1))
  have lg: "placedLog (foldl (placeAsset bb rand (spawnBounds ?s) ?pm) ?st0 dyn)
              ! (length (placedLog ?st0) + j)"
    using assms(5) by (simp add: run)
  have "isBoxWithinSpawnBounds (spawnBounds ?s)
          (bb (pl_objects (foldl (placeAsset bb rand (spawnBounds ?s) ?pm) ?st0 dyn)
                 (object (dyn ! j))))"
    by (rule foldl_placeAsset_within [OF assms(2) assms(3) cf lg])
  then have w: "isBoxWithinSpawnBounds (spawnBounds ?s) box"
    by (simp add: assms(6) randomize_objects run)
  then show ?thesis
    by (cases box) (auto simp: Let_def)
qed

lemma scene_facts:
  "assets tableCrateScene = [tableAsset, crateAsset]" "objects tableCrateScene = cubeObjects"
  "spawnBounds tableCrateScene = DEFAULT_SPAWN_BOUNDS" "savedConditions tableCrateScene = []"
  "assets crateOnlyScene = [crateAsset]" "objects crateOnlyScene = cubeObjects"
  "spawnBounds crateOnlyScene = DEFAULT_SPAWN_BOUNDS"
  "assets tableOnlyScene = [tableAsset]" "objects tableOnlyScene = cubeObjects"
  "assets farCrateScene = [tableAsset, crateAsset]" "objects farCrateScene = farObjects"
  "spawnBounds farCrateScene = DEFAULT_SPAWN_BOUNDS"
  by (simp_all add: tableCrateScene_def crateOnlyScene_def tableOnlyScene_def farCrateScene_def
        sceneWith_def)

lemma poses_examples:
  "posesOf cubeObjects [crateAsset] = [(''crate'', originPose)]"
  "posesOf farObjects [crateAsset] = [(''crate'', originPose)]"
  by (rule poses_crate; simp add: cubeObjects_def farObjects_def objectWith_def)+

lemma run_tableCrate:
  "runPlacement setFromObject halfRand tableCrateScene
     = \<lparr>pl_objects = cubeObjects(1 := (objectWith cubeGeometry)\<lparr>quaternion := Quaternion 0 1 0 0\<rparr>),
        placedBoxes = [Box3 (Vector3 (- 0.05) (- 0.05) (- 0.05)) (Vector3 0.05 0.05 0.05)],
        randomCalls = 3, placed = True, placedLog = [True]\<rparr>"
proof -
  have c: "cubeObjects 1 = objectWith cubeGeometry" by (simp add: cubeObjects_def)
  show ?thesis
    using place_cube [of cubeObjects, OF c]
    by (simp add: runPlacement_def Let_def dyn_tableCrate scene_facts(2,3) poses_examples)
qed

lemma run_farCrate:
  "pl_objects (runPlacement setFromObject halfRand farCrateScene) 1
     = (objectWith farGeometry)\<lparr>quaternion := Quaternion 0 1 0 0\<rparr>
   \<and> placedLog (runPlacement setFromObject halfRand farCrateScene) = [False]"
proof -
  have c: "farObjects 1 = objectWith farGeometry" by (simp add: farObjects_def)
  show ?thesis
    using place_far [of farObjects, OF c]
    by (simp add: runPlacement_def Let_def dyn_farCrate scene_facts(11,12) poses_examples)
qed

theorem C3_accepted_asset_within_bounds_witness:
  "distinct (map object (filter isDynamic (assets tableCrateScene)))
   \<and> filter isDynamic (assets tableCrateScene) ! 0 = crateAsset
   \<and> canFit (fitOf setFromObject (spawnBounds tableCrateScene) (capturePoses tableCrateScene)
               crateAsset (objects tableCrateScene))
   \<and> placedLog (runPlacement setFromObject halfRand tableCrateScene) ! 0
   \<and> isBoxWithinSpawnBounds (spawnBounds tableCrateScene)
        (setFromObject (objects (fst (randomizeNonStaticAssets setFromObject halfRand
           (tableCrateScene, emptyHistory))) (object crateAsset)))"
proof -
  let ?sh = "(tableCrateScene, emptyHistory :: Command History)"
  have d: "distinct (map object (filter isDynamic (assets (fst ?sh))))"
    and j: "0 < length (filter isDynamic (assets (fst ?sh)))"
    and e: "filter isDynamic (assets (fst ?sh)) ! 0 = crateAsset"
    by (simp_all add: dyn_tableCrate)
  have cp: "capturePoses tableCrateScene = [(''crate'', originPose)]"
    unfolding capturePoses_def dyn_tableCrate
    by (rule poses_crate)
       (simp_all add: tableCrateScene_def sceneWith_def cubeObjects_def objectWith_def)
  have o: "objects tableCrateScene = cubeObjects"
      "spawnBounds tableCrateScene = DEFAULT_SPAWN_BOUNDS"
    by (simp_all add: tableCrateScene_def sceneWith_def)
  have "fitOf setFromObject DEFAULT_SPAWN_BOUNDS [(''crate'', originPose)] crateAsset cubeObjects
          = crateFit"
    by (rule fit_cube) (simp_all add: cubeObjects_def objectWith_def)
  then have cf: "canFit (fitOf setFromObject (spawnBounds (fst ?sh)) (capturePoses (fst ?sh))
                (filter isDynamic (assets (fst ?sh)) ! 0) (objects (fst ?sh)))"
    by (simp add: dyn_tableCrate cp o crateFit_def)
  have lg: "placedLog (runPlacement setFromObject halfRand (fst ?sh)) ! 0"
    by (simp add: run_tableCrate)
  from C3_accepted_asset_within_bounds [OF refl d j cf lg refl] d e cf lg
  show ?thesis by simp
qed

theorem C3_counterexample:
  "filter isDynamic (assets farCrateScene) = [crateAsset]
   \<and> canFit (fitOf setFromObject (spawnBounds farCrateScene) (capturePoses farCrateScene)
               crateAsset (objects farCrateScene))
   \<and> setFromObject (objects (fst (randomizeNonStaticAssets setFromObject halfRand
           (farCrateScene, emptyHistory))) (object crateAsset))
       = Box3 (Vector3 (- 10.1) (- 0.05) (- 0.05)) (Vector3 (- 10) 0.05 0.05)
   \<and> \<not> isBoxWithinSpawnBounds (spawnBounds farCrateScene)
        (setFromObject (objects (fst (randomizeNonStaticAssets setFromObject halfRand
           (farCrateScene, emptyHistory))) (object crateAsset)))"
proof -
  have cp: "capturePoses farCrateScene = [(''crate'', originPose)]"
    unfolding capturePoses_def dyn_farCrate
    by (rule poses_crate)
       (simp_all add: farCrateScene_def sceneWith_def farObjects_def objectWith_def)
  have o: "objects farCrateScene = farObjects"
      "spawnBounds farCrateScene = DEFAULT_SPAWN_BOUNDS"
    by (simp_all add: farCrateScene_def sceneWith_def)
  have "fitOf setFromObject DEFAULT_SPAWN_BOUNDS [(''crate'', originPose)] crateAsset farObjects
          = crateFit"
    by (rule fit_far) (simp_all add: farObjects_def objectWith_def)
  then have cf: "canFit (fitOf setFromObject (spawnBounds farCrateScene)
               (capturePoses farCrateScene) crateAsset (objects farCrateScene))"
    by (simp add: cp o crateFit_def)
  have ob: "objects (fst (randomizeNonStaticAssets setFromObject halfRand
              (farCrateScene, emptyHistory))) (object crateAsset)
            = (objectWith farGeometry)\<lparr>quaternion := Quaternion 0 1 0 0\<rparr>"
    using run_farCrate by (simp add: randomize_objects crate_facts)
  have bx: "setFromObject ((objectWith farGeometry)\<lparr>quaternion := Quaternion 0 1 0 0\<rparr>)
              = Box3 (Vector3 (- 10.1) (- 0.05) (- 0.05)) (Vector3 (- 10) 0.05 0.05)"
    by (rule box_far_halfturn) (simp_all add: objectWith_def)
  have sb: "spawnBounds farCrateScene = DEFAULT_SPAWN_BOUNDS"
    by (simp add: farCrateScene_def sceneWith_def)
  show ?thesis
    unfolding ob bx sb using cf dyn_farCrate
    by (simp add: DEFAULT_SPAWN_BOUNDS_def sb)
qed

text \<open>
  Claim C4. A static asset (not locked, not excluded from export, gravity disabled)
  has the same position and orientation after \<open>randomize\<close> as before, whatever the
  bounding-box service and the random draws; the registry itself is unchanged, and no
  object other than those of dynamic assets is written. Assets own their objects: the
  static asset does not share its object with a dynamic one.
\<close>

theorem C4_static_assets_unchanged:
  assumes "a \<in> set (staticAssets (assets (fst sh)))"
      and "\<forall>d \<in> set (dynamicAssets (assets (fst sh))). object d \<noteq> object a"
  shows "position (objects (fst (randomizeNonStaticAssets bb rand sh)) (object a))
           = position (objects (fst sh) (object a))
         \<and> quaternion (objects (fst (randomizeNonStaticAssets bb rand sh)) (object a))
           = quaternion (objects (fst sh) (object a))
         \<and> objects (fst (randomizeNonStaticAssets bb rand sh)) (object a)
           = objects (fst sh) (object a)
         \<and> assets (fst (randomizeNonStaticAssets bb rand sh)) = assets (fst sh)"
proof -
  from assms(2) have "object a \<notin> object ` set (filter isDynamic (assets (fst sh)))"
    by (auto simp: dynamicAssets_eq)
  then have "objects (fst (randomizeNonStaticAssets bb rand sh)) (object a)
               = objects (fst sh) (object a)"
    by (simp add: randomize_objects runPlacement_frame)
  then show ?thesis by (simp add: randomize_assets)
qed

theorem C4_static_assets_unchanged_witness:
  "tableAsset \<in> set (staticAssets (assets tableCrateScene))
   \<and> dynamicAssets (assets tableCrateScene) = [crateAsset]
   \<and> object crateAsset \<noteq> object tableAsset
   \<and> position (objects (fst (randomizeNonStaticAssets setFromObject halfRand
          (tableCrateScene, emptyHistory))) (object tableAsset)) = Vector3 0 0 0
   \<and> quaternion (objects (fst (randomizeNonStaticAssets setFromObject halfRand
          (tableCrateScene, emptyHistory))) (object tableAsset)) = Quaternion 0 0 0 1"
proof -
  let ?sh = "(tableCrateScene, emptyHistory :: Command History)"
  have a: "tableAsset \<in> set (staticAssets (assets (fst ?sh)))"
    by (simp add: staticAssets_def exportableAssets_def tableCrateScene_def sceneWith_def
          tableAsset_def crateAsset_def assetWith_def)
  have b: "\<forall>d \<in> set (dynamicAssets (assets (fst ?sh))). object d \<noteq> object tableAsset"
    by (simp add: dynamicAssets_eq dyn_tableCrate crateAsset_def tableAsset_def assetWith_def)
  have c: "objects tableCrateScene (object tableAsset) = objectWith cubeGeometry"
    by (simp add: tableCrateScene_def sceneWith_def cubeObjects_def)
  have d: "dynamicAssets (assets tableCrateScene) = [crateAsset]"
    by (simp add: dynamicAssets_eq dyn_tableCrate)
  have e: "object crateAsset \<noteq> object tableAsset"
    by (simp add: crateAsset_def tableAsset_def assetWith_def)
  from C4_static_assets_unchanged [OF a b, of setFromObject halfRand] a c d e
  show ?thesis by (simp add: objectWith_def)
qed

text \<open>
  Claim C5, as amended. With no eligible dynamic asset, \<open>randomize\<close> is a silent no-op:
  the scene (every pose included) and both history stacks are unchanged. The operation
  has no guard on static assets; what a missing category prevents is entering Randomize
  mode, where the handler leaves the scene as it is and shows the hint.
\<close>

theorem C5_randomize_without_dynamic_is_noop:
  "(dynamicAssets (assets (fst sh)) = [] \<longrightarrow> randomizeNonStaticAssets bb rand sh = sh)
   \<and> (\<not> canRandomize (assets (fst sn)) \<longrightarrow>
        handleEnterRandomize sn = (fst sn, Some (getHint (assets (fst sn)))))"
  by (simp add: dynamicAssets_eq randomizeNonStaticAssets_def Let_def capturePoses_empty_iff
        handleEnterRandomize_def)

theorem C5_randomize_without_dynamic_is_noop_witness:
  "dynamicAssets (assets tableOnlyScene) = []
   \<and> randomizeNonStaticAssets setFromObject halfRand (tableOnlyScene, emptyHistory)
       = (tableOnlyScene, emptyHistory)
   \<and> \<not> canRandomize (assets tableOnlyScene)
   \<and> handleEnterRandomize (tableOnlyScene, None)
       = (tableOnlyScene, Some ''Add assets without \"Disable Gravity\" to randomize'')"
proof -
  have d: "dynamicAssets (assets (fst (tableOnlyScene, emptyHistory :: Command History))) = []"
    by (simp add: dynamicAssets_def exportableAssets_def tableOnlyScene_def sceneWith_def
          tableAsset_def assetWith_def)
  have s: "staticAssets (assets tableOnlyScene) = [tableAsset]"
    by (simp add: staticAssets_def exportableAssets_def tableOnlyScene_def sceneWith_def
          tableAsset_def assetWith_def)
  have c: "\<not> canRandomize (assets (fst (tableOnlyScene, None :: string option)))"
    using d by (simp add: canRandomize_def hasDynamicAssets_def)
  have h: "getHint (assets tableOnlyScene) = ''Add assets without \"Disable Gravity\" to randomize''"
    using d s by (simp add: getHint_def hasDynamicAssets_def hasStaticAssets_def)
  from C5_randomize_without_dynamic_is_noop
         [of "(tableOnlyScene, emptyHistory)" setFromObject halfRand "(tableOnlyScene, None)"]
       d c h
  show ?thesis by simp
qed

theorem C5_counterexample:
  "staticAssets (assets crateOnlyScene) = []
   \<and> undoStack (snd (randomizeNonStaticAssets setFromObject halfRand
        (crateOnlyScene, emptyHistory)))
       = [RandomizeCmd [(''crate'', originPose)]
            [(''crate'', \<lparr>pose_position = Vector3 0 0 0, pose_quaternion = Quaternion 0 1 0 0\<rparr>)]]
   \<and> quaternion (objects crateOnlyScene (object crateAsset)) = Quaternion 0 0 0 1
   \<and> quaternion (objects (fst (randomizeNonStaticAssets setFromObject halfRand
        (crateOnlyScene, emptyHistory))) (object crateAsset)) = Quaternion 0 1 0 0"
proof -
  have st: "staticAssets (assets crateOnlyScene) = []"
    by (simp add: staticAssets_def exportableAssets_def crateOnlyScene_def sceneWith_def
          crateAsset_def assetWith_def)
  have p: "posesOf (objects crateOnlyScene) [crateAsset] = [(''crate'', originPose)]"
    by (rule poses_crate)
       (simp_all add: crateOnlyScene_def sceneWith_def cubeObjects_def objectWith_def)
  have o: "objects crateOnlyScene = cubeObjects" "spawnBounds crateOnlyScene = DEFAULT_SPAWN_BOUNDS"
    "assets crateOnlyScene = [crateAsset]"
    by (simp_all add: crateOnlyScene_def sceneWith_def)
  have c: "cubeObjects 1 = objectWith cubeGeometry" by (simp add: cubeObjects_def)
  have run: "pl_objects (runPlacement setFromObject halfRand crateOnlyScene)
               = cubeObjects(1 := (objectWith cubeGeometry)\<lparr>quaternion := Quaternion 0 1 0 0\<rparr>)"
    using place_cube [of cubeObjects, OF c]
    by (simp add: runPlacement_def Let_def dyn_crateOnly scene_facts(6,7) poses_examples)
  have cp: "capturePoses crateOnlyScene = [(''crate'', originPose)]"
    by (simp add: capturePoses_def dyn_crateOnly p)
  have s1: "doRandomizeNonStaticAssets setFromObject halfRand crateOnlyScene
              = crateOnlyScene\<lparr>savedPoses := Some [(''crate'', originPose)],
                  objects := cubeObjects(1 := (objectWith cubeGeometry)
                                \<lparr>quaternion := Quaternion 0 1 0 0\<rparr>)\<rparr>"
    by (simp add: doRandomizeNonStaticAssets_def Let_def dyn_crateOnly p run)
  have cp1: "capturePoses (doRandomizeNonStaticAssets setFromObject halfRand crateOnlyScene)
               = [(''crate'', \<lparr>pose_position = Vector3 0 0 0,
                               pose_quaternion = Quaternion 0 1 0 0\<rparr>)]"
    unfolding s1
    by (simp add: capturePoses_def o isDynamic_def posesOf_def poseOf_def crateAsset_def
          assetWith_def objectWith_def)
  have r: "randomizeNonStaticAssets setFromObject halfRand (crateOnlyScene, emptyHistory)
             = (doRandomizeNonStaticAssets setFromObject halfRand crateOnlyScene,
                pushCommand (RandomizeCmd [(''crate'', originPose)]
                   [(''crate'', \<lparr>pose_position = Vector3 0 0 0,
                                  pose_quaternion = Quaternion 0 1 0 0\<rparr>)]) emptyHistory)"
    by (simp add: randomizeNonStaticAssets_def Let_def cp cp1)
  show ?thesis
    unfolding r using st
    by (simp add: s1 crate_facts pushCommand_def emptyHistory_def Let_def MAX_HISTORY_SIZE_def
          o cubeObjects_def objectWith_def)
qed

section \<open>Claims about saved conditions and the gravity flag\<close>

text \<open>
  Claim C9. With an index out of range (negative, or at least the number of saved
  conditions), \<open>loadCondition\<close> and \<open>deleteCondition\<close> return the application state as
  it was: the saved conditions, every pose and both history stacks are unchanged, so no
  command is pushed.
\<close>

theorem C9_out_of_range_index_is_noop:
  "index < 0 \<or> index \<ge> int (length (savedConditions (fst sh))) \<Longrightarrow>
     loadCondition index sh = sh \<and> deleteCondition index sh = sh"
  by (auto simp: loadCondition_def deleteCondition_def Let_def)

theorem C9_out_of_range_index_is_noop_witness:
  "((- 1 :: int) < 0 \<or> - 1 \<ge> int (length (savedConditions tableCrateScene)))
   \<and> loadCondition (- 1) (tableCrateScene, emptyHistory) = (tableCrateScene, emptyHistory)
   \<and> deleteCondition (- 1) (tableCrateScene, emptyHistory) = (tableCrateScene, emptyHistory)
   \<and> ((0 :: int) < 0 \<or> 0 \<ge> int (length (savedConditions tableCrateScene)))
   \<and> loadCondition 0 (tableCrateScene, emptyHistory) = (tableCrateScene, emptyHistory)
   \<and> deleteCondition 0 (tableCrateScene, emptyHistory) = (tableCrateScene, emptyHistory)"
proof -
  let ?sh = "(tableCrateScene, emptyHistory :: Command History)"
  have a: "(- 1 :: int) < 0 \<or> - 1 \<ge> int (length (savedConditions (fst ?sh)))" by simp
  have b: "(0 :: int) < 0 \<or> 0 \<ge> int (length (savedConditions (fst ?sh)))"
    by (simp add: tableCrateScene_def sceneWith_def)
  from C9_out_of_range_index_is_noop [OF a] C9_out_of_range_index_is_noop [OF b] a b
  show ?thesis by simp
qed

text \<open>
  Claim C10. \<open>toggleAssetGravity\<close> keeps the length and order of the registry; an asset
  whose id is the given one has \<open>disableGravity\<close> negated and its id, name, object
  reference, \<open>locked\<close> and \<open>excludeFromExport\<close> kept; any other asset is kept whole; the
  object store (every transform) is kept; and when no asset has the id the registry is
  unchanged.
\<close>

theorem C10_toggle_gravity_flips_only_the_flag:
  "let as = assets (fst sh); as' = assets (fst (toggleAssetGravity i sh))
   in length as' = length as
      \<and> (\<forall>k < length as.
            (asset_id (as ! k) = i \<longrightarrow>
               disableGravity (as' ! k) = (\<not> disableGravity (as ! k))
               \<and> asset_id (as' ! k) = asset_id (as ! k)
               \<and> asset_name (as' ! k) = asset_name (as ! k)
               \<and> object (as' ! k) = object (as ! k)
               \<and> locked (as' ! k) = locked (as ! k)
               \<and> excludeFromExport (as' ! k) = excludeFromExport (as ! k))
            \<and> (asset_id (as ! k) \<noteq> i \<longrightarrow> as' ! k = as ! k))
      \<and> objects (fst (toggleAssetGravity i sh)) = objects (fst sh)
      \<and> ((\<forall>a \<in> set as. asset_id a \<noteq> i) \<longrightarrow> as' = as)"
  by (auto simp: toggleAssetGravity_def doToggleAssetGravity_def Let_def map_idI)

theorem C10_toggle_gravity_flips_only_the_flag_witness:
  "assets (fst (toggleAssetGravity ''crate'' (tableCrateScene, emptyHistory)))
     = [tableAsset, crateAsset\<lparr>disableGravity := True\<rparr>]
   \<and> map asset_id (assets tableCrateScene) = [''table'', ''crate'']
   \<and> assets (fst (toggleAssetGravity ''lamp'' (tableCrateScene, emptyHistory)))
     = assets tableCrateScene"
proof -
  let ?sh = "(tableCrateScene, emptyHistory :: Command History)"
  have as: "assets (fst ?sh) = [tableAsset, crateAsset]"
    by (simp add: scene_facts)
  have no: "\<forall>a \<in> set (assets (fst ?sh)). asset_id a \<noteq> ''lamp''"
    by (simp add: scene_facts tableAsset_def crateAsset_def assetWith_def)
  have k0: "(0::nat) < length (assets (fst ?sh))" and k1: "(1::nat) < length (assets (fst ?sh))"
    by (simp_all add: scene_facts)
  have i0: "asset_id (assets (fst ?sh) ! 0) \<noteq> ''crate''"
    and i1: "asset_id (assets (fst ?sh) ! 1) = ''crate''"
    by (simp_all add: scene_facts tableAsset_def crateAsset_def assetWith_def)
  let ?as' = "assets (fst (toggleAssetGravity ''crate'' ?sh))"
  from C10_toggle_gravity_flips_only_the_flag [of ?sh "''crate''"]
  have len: "length ?as' = 2"
    and all: "\<forall>k < length (assets (fst ?sh)).
            (asset_id (assets (fst ?sh) ! k) = ''crate'' \<longrightarrow>
               disableGravity (?as' ! k) = (\<not> disableGravity (assets (fst ?sh) ! k))
               \<and> asset_id (?as' ! k) = asset_id (assets (fst ?sh) ! k)
               \<and> asset_name (?as' ! k) = asset_name (assets (fst ?sh) ! k)
               \<and> object (?as' ! k) = object (assets (fst ?sh) ! k)
               \<and> locked (?as' ! k) = locked (assets (fst ?sh) ! k)
               \<and> excludeFromExport (?as' ! k) = excludeFromExport (assets (fst ?sh) ! k))
            \<and> (asset_id (assets (fst ?sh) ! k) \<noteq> ''crate'' \<longrightarrow> ?as' ! k = assets (fst ?sh) ! k)"
    unfolding Let_def by (simp_all add: scene_facts)
  from all k0 i0 have e0: "?as' ! 0 = tableAsset" by (simp add: scene_facts)
  from all k1 i1 have e1: "?as' ! 1 = crateAsset\<lparr>disableGravity := True\<rparr>"
    by (simp add: scene_facts crateAsset_def assetWith_def)
  from len e0 e1 have r1: "?as' = [tableAsset, crateAsset\<lparr>disableGravity := True\<rparr>]"
    by (simp add: list_eq_iff_nth_eq less_Suc_eq numeral_2_eq_2)
  from C10_toggle_gravity_flips_only_the_flag [of ?sh "''lamp''"] no
  have r2: "assets (fst (toggleAssetGravity ''lamp'' ?sh)) = assets (fst ?sh)"
    unfolding Let_def by blast
  have no': "\<forall>a \<in> set (assets tableCrateScene). asset_id a \<noteq> ''lamp''"
    using no by simp
  have r2': "assets (fst (toggleAssetGravity ''lamp'' (tableCrateScene, emptyHistory)))
               = assets tableCrateScene"
    using r2 by simp
  have ids: "map asset_id (assets tableCrateScene) = [''table'', ''crate'']"
    by (simp add: scene_facts tableAsset_def crateAsset_def assetWith_def)
  from r1 ids r2' show ?thesis by (intro conjI)
qed

section \<open>Claims about selection and keyboard handling\<close>

lemma pickableMeshes_filter:
  "pickableMeshes objs as = pickableMeshes objs (filter (\<lambda>a. \<not> locked a) as)"
  by (induction as) simp_all

lemma pickableMeshes_owner:
  "m \<in> set (pickableMeshes objs as) \<Longrightarrow>
     \<exists>a \<in> set as. \<not> locked a \<and> m \<in> set (meshesOf objs a)"
  by (induction as) (auto split: if_splits)

lemma findOwner_unlocked:
  "findOwner objs h as = Some a \<Longrightarrow> \<not> locked a \<and> a \<in> set as \<and> ownsNode objs h a"
  by (induction as) (auto split: if_splits)

lemma select_changes:
  "selectionChanges (select x sm) = selectionChanges sm @ [x]"
  "sm_selectedAsset (select x sm) = x"
  by (cases x; simp add: select_def Let_def)+

lemma selectBounds_changes:
  "selectionChanges (selectBounds sm) = selectionChanges sm
   \<or> selectionChanges (selectBounds sm) = selectionChanges sm @ [None]"
  "sm_selectedAsset (selectBounds sm) = sm_selectedAsset sm
   \<or> sm_selectedAsset (selectBounds sm) = None"
  by (simp_all add: selectBounds_def)

lemma pick_cases:
  "(selectionChanges (pick f rect objs ev sm) = selectionChanges sm
      \<and> sm_selectedAsset (pick f rect objs ev sm) = sm_selectedAsset sm)
   \<or> (selectionChanges (pick f rect objs ev sm) = selectionChanges sm @ [None]
      \<and> sm_selectedAsset (pick f rect objs ev sm) = None)
   \<or> (\<exists>a. selectionChanges (pick f rect objs ev sm) = selectionChanges sm @ [Some a]
          \<and> sm_selectedAsset (pick f rect objs ev sm) = Some a
          \<and> \<not> locked a \<and> a \<in> set (sm_assets sm))"
proof -
  let ?mouse = "(((clientX ev - rect_left rect) / rect_width rect) * 2 - 1,
                 - ((clientY ev - rect_top rect) / rect_height rect) * 2 + 1)"
  let ?hits = "f ?mouse (pickableMeshes objs (sm_assets sm))"
  show ?thesis
  proof (cases ?hits)
    case Nil
    then have eq: "pick f rect objs ev sm
                     = (if sm_isRandomizeMode sm then selectBounds sm else select None sm)"
      by (simp add: pick_def Let_def)
    show ?thesis
    proof (cases "sm_isRandomizeMode sm")
      case True
      then show ?thesis unfolding eq by (simp add: selectBounds_def)
    next
      case False
      then show ?thesis unfolding eq by (simp add: select_changes)
    qed
  next
    case (Cons h rest)
    then have eq: "pick f rect objs ev sm
                     = (case findOwner objs h (sm_assets sm) of
                          Some asset \<Rightarrow>
                            select (Some asset)
                              (if sm_isRandomizeMode sm then sm\<lparr>isBoundsSelected := False\<rparr>
                               else sm)
                        | None \<Rightarrow> sm)"
      by (simp add: pick_def Let_def)
    show ?thesis
    proof (cases "findOwner objs h (sm_assets sm)")
      case None
      then show ?thesis unfolding eq by simp
    next
      case (Some a)
      from findOwner_unlocked [OF Some] have "\<not> locked a" "a \<in> set (sm_assets sm)"
        by simp_all
      with Some show ?thesis unfolding eq by (simp add: select_changes)
    qed
  qed
qed

lemma onClick_cases:
  "(selectionChanges (onClick f rect objs ev sm) = selectionChanges sm
      \<and> sm_selectedAsset (onClick f rect objs ev sm) = sm_selectedAsset sm)
   \<or> (selectionChanges (onClick f rect objs ev sm) = selectionChanges sm @ [None]
      \<and> sm_selectedAsset (onClick f rect objs ev sm) = None)
   \<or> (\<exists>a. selectionChanges (onClick f rect objs ev sm) = selectionChanges sm @ [Some a]
          \<and> sm_selectedAsset (onClick f rect objs ev sm) = Some a
          \<and> \<not> locked a \<and> a \<in> set (sm_assets sm))"
proof (cases "tc_dragging sm \<or> wasDragging sm \<or> movedTooFar ev sm")
  case True
  then have "selectionChanges (onClick f rect objs ev sm) = selectionChanges sm
             \<and> sm_selectedAsset (onClick f rect objs ev sm) = sm_selectedAsset sm"
    by (auto simp: onClick_def)
  then show ?thesis by blast
next
  case False
  then have eq: "onClick f rect objs ev sm = pick f rect objs ev (sm\<lparr>mouseDownPos := None\<rparr>)"
    by (simp add: onClick_def)
  from pick_cases [of f rect objs ev "sm\<lparr>mouseDownPos := None\<rparr>"]
  show ?thesis unfolding eq by simp
qed

text \<open>
  Claim C8. The click handler never selects a locked asset. The meshes handed to the ray
  cast are those of the unlocked assets only (the list is the one an asset registry
  without its locked assets gives, and each of its meshes belongs to an unlocked asset);
  and whatever the ray cast returns, a click that selects an asset (calls
  \<open>onSelectionChange\<close> with it, or leaves it as the new selection) selects an unlocked
  asset of the registry.
\<close>

theorem C8_pick_never_selects_locked:
  "pickableMeshes objs (sm_assets sm)
     = pickableMeshes objs (filter (\<lambda>a. \<not> locked a) (sm_assets sm))
   \<and> (\<forall>m \<in> set (pickableMeshes objs (sm_assets sm)).
         \<exists>a \<in> set (sm_assets sm). \<not> locked a \<and> m \<in> set (meshesOf objs a))
   \<and> (selectionChanges (onClick f rect objs ev sm) = selectionChanges sm @ [Some a]
        \<longrightarrow> \<not> locked a \<and> a \<in> set (sm_assets sm))
   \<and> (sm_selectedAsset (onClick f rect objs ev sm) = Some a
        \<and> sm_selectedAsset (onClick f rect objs ev sm) \<noteq> sm_selectedAsset sm
        \<longrightarrow> \<not> locked a \<and> a \<in> set (sm_assets sm))"
proof (intro conjI ballI impI)
  show "pickableMeshes objs (sm_assets sm)
          = pickableMeshes objs (filter (\<lambda>a. \<not> locked a) (sm_assets sm))"
    by (rule pickableMeshes_filter)
next
  fix m assume "m \<in> set (pickableMeshes objs (sm_assets sm))"
  then show "\<exists>a \<in> set (sm_assets sm). \<not> locked a \<and> m \<in> set (meshesOf objs a)"
    by (rule pickableMeshes_owner)
next
  assume "selectionChanges (onClick f rect objs ev sm) = selectionChanges sm @ [Some a]"
  with onClick_cases [of f rect objs ev sm]
  show "\<not> locked a" "a \<in> set (sm_assets sm)" by auto
next
  assume "sm_selectedAsset (onClick f rect objs ev sm) = Some a
          \<and> sm_selectedAsset (onClick f rect objs ev sm) \<noteq> sm_selectedAsset sm"
  with onClick_cases [of f rect objs ev sm]
  show "\<not> locked a" "a \<in> set (sm_assets sm)" by auto
qed

lemma click_pickManager:
  "onClick hitEverything canvasRect pickObjects (clickAt 400 300) pickManager
     = select (Some crateAsset) pickManager"
proof -
  have m: "pickableMeshes pickObjects (sm_assets pickManager) = [11]"
    by (simp add: pickManager_def exampleManager_def lockedTable_def tableAsset_def
          crateAsset_def assetWith_def meshesOf_def pickObjects_def objectWith_def)
  have o: "findOwner pickObjects 11 (sm_assets pickManager) = Some crateAsset"
    by (simp add: pickManager_def exampleManager_def lockedTable_def tableAsset_def
          crateAsset_def assetWith_def ownsNode_def pickObjects_def objectWith_def)
  have p: "tc_dragging pickManager = False" "wasDragging pickManager = False"
    "movedTooFar (clickAt 400 300) pickManager = False"
    "sm_isRandomizeMode pickManager = False"
    "pickManager\<lparr>mouseDownPos := None\<rparr> = pickManager"
    by (simp_all add: pickManager_def exampleManager_def movedTooFar_def)
  show ?thesis
    by (simp add: onClick_def pick_def Let_def p m hitEverything_def o)
qed

theorem C8_pick_never_selects_locked_witness:
  "locked lockedTable
   \<and> meshesOf pickObjects lockedTable = [10]
   \<and> pickableMeshes pickObjects (sm_assets pickManager) = [11]
   \<and> selectionChanges (onClick hitEverything canvasRect pickObjects (clickAt 400 300) pickManager)
       = selectionChanges pickManager @ [Some crateAsset]
   \<and> sm_selectedAsset (onClick hitEverything canvasRect pickObjects (clickAt 400 300) pickManager)
       = Some crateAsset
   \<and> sm_selectedAsset pickManager = None
   \<and> \<not> locked crateAsset \<and> crateAsset \<in> set (sm_assets pickManager)"
proof -
  let ?sm' = "onClick hitEverything canvasRect pickObjects (clickAt 400 300) pickManager"
  have l: "locked lockedTable" "meshesOf pickObjects lockedTable = [10]"
    by (simp_all add: lockedTable_def tableAsset_def assetWith_def meshesOf_def pickObjects_def
          objectWith_def)
  have m: "pickableMeshes pickObjects (sm_assets pickManager) = [11]"
    by (simp add: pickManager_def exampleManager_def lockedTable_def tableAsset_def
          crateAsset_def assetWith_def meshesOf_def pickObjects_def objectWith_def)
  have c: "selectionChanges ?sm' = selectionChanges pickManager @ [Some crateAsset]"
    and s: "sm_selectedAsset ?sm' = Some crateAsset"
    by (simp_all add: click_pickManager select_changes)
  have n: "sm_selectedAsset pickManager = None"
    by (simp add: pickManager_def exampleManager_def)
  from C8_pick_never_selects_locked
         [of pickObjects pickManager hitEverything canvasRect "clickAt 400 300" crateAsset]
       c s n
  have "\<not> locked crateAsset \<and> crateAsset \<in> set (sm_assets pickManager)"
    by simp
  with l m c s n show ?thesis by simp
qed

lemma onKeyDown_input_ignored:
  "ev_target e = HTMLInputElement \<Longrightarrow> onKeyDown e sm = sm"
  by (simp add: onKeyDown_def)

lemma handleKeyDown_text_ignored:
  "ev_target e = HTMLInputElement \<or> ev_target e = HTMLTextAreaElement \<Longrightarrow>
     handleKeyDown e sh = sh"
  by (auto simp: handleKeyDown_def)

lemma lower_keys:
  "toLowerCase ''r'' = ''r''" "toLowerCase ''Escape'' = ''escape''"
  by code_simp+

text \<open>
  Claim C6 fails on the code for a \<open>textarea\<close>. The key handler of the selection
  manager returns early only for an \<open>input\<close> element; a key typed into the instruction
  \<open>textarea\<close> is handled: \<open>r\<close> switches the gizmo from translate to rotate, and
  \<open>Escape\<close> clears the selection. The undo/redo handler of \<open>App\<close>, on the same event,
  ignores both kinds of text field.
\<close>

theorem C6_textarea_key_is_handled:
  "tc_mode exampleManager = Translate
   \<and> tc_mode (onKeyDown (keyIn HTMLTextAreaElement ''r'') exampleManager) = Rotate
   \<and> sm_selectedAsset exampleManager = Some crateAsset
   \<and> sm_selectedAsset (onKeyDown (keyIn HTMLTextAreaElement ''Escape'') exampleManager) = None
   \<and> onKeyDown (keyIn HTMLInputElement ''r'') exampleManager = exampleManager"
  by (simp add: onKeyDown_def keyIn_def lower_keys Let_def setMode_def select_changes
        exampleManager_def)

section \<open>Claims about the spawn-bounds proxy\<close>

lemma pow2_numeral:
  "pow2 (- 56) = 1 / 2 ^ 56" "pow2 (- 55) = 1 / 2 ^ 55" "pow2 (- 54) = 1 / 2 ^ 54"
  "pow2 (- 57) = 1 / 2 ^ 57"
  by (simp_all add: pow2_def)

lemma round64_tenth: "round64 (1 / 10) = 3602879701896397 / 2 ^ 55"
  by (simp add: round64_def exponentOf_def pow2_def roundHalfEven_def Let_def bitLength.simps)

lemma round64_fifth: "round64 (1 / 5) = 3602879701896397 / 2 ^ 54"
  by (simp add: round64_def exponentOf_def pow2_def roundHalfEven_def Let_def bitLength.simps)

lemma typed_sizeX:
  "fsub (3602879701896397 / 2 ^ 54) (3602879701896397 / 2 ^ 55) = 3602879701896397 / 2 ^ 55"
  by (simp add: fsub_def round64_def exponentOf_def pow2_def roundHalfEven_def Let_def
        bitLength.simps)

lemma typed_sum:
  "fadd (3602879701896397 / 2 ^ 55) (3602879701896397 / 2 ^ 54) = 1351079888211149 / 2 ^ 52"
  by (simp add: fadd_def round64_def exponentOf_def pow2_def roundHalfEven_def Let_def
        bitLength.simps)

lemma typed_centerX:
  "fdiv (1351079888211149 / 2 ^ 52) 2 = 1351079888211149 / 2 ^ 53"
  by (simp add: fdiv_def round64_def exponentOf_def pow2_def roundHalfEven_def Let_def
        bitLength.simps)

lemma typed_width_scaled:
  "fmul (3602879701896397 / 2 ^ 55) 1 = 3602879701896397 / 2 ^ 55"
  by (simp add: fmul_def round64_def exponentOf_def pow2_def roundHalfEven_def Let_def
        bitLength.simps)

lemma typed_half_width:
  "fdiv (3602879701896397 / 2 ^ 55) 2 = 3602879701896397 / 2 ^ 56"
  by (simp add: fdiv_def round64_def exponentOf_def pow2_def roundHalfEven_def Let_def
        bitLength.simps)

lemma typed_minX_back:
  "fsub (1351079888211149 / 2 ^ 53) (3602879701896397 / 2 ^ 56) = 7205759403792795 / 2 ^ 56"
  by (simp add: fsub_def round64_def exponentOf_def pow2_def roundHalfEven_def Let_def
        bitLength.simps)

text \<open>
  Claim C7 as stated fails in the arithmetic of the program: for the bounds typed as
  0.1 and 0.2 on the x axis, building the proxy and reading the bounds back from the
  unmoved, unscaled proxy gives \<open>minX = 0.10000000000000002\<close>, the binary64 value next
  above 0.1.
\<close>

theorem C7_counterexample:
  "minX typedBounds = 3602879701896397 / 2 ^ 55
   \<and> mesh_scale (createBoundsMesh64 typedBounds) = Vector3 1 1 1
   \<and> minX (boundsFromMesh64 (createBoundsMesh64 typedBounds)) = 7205759403792795 / 2 ^ 56
   \<and> minX (boundsFromMesh64 (createBoundsMesh64 typedBounds)) \<noteq> minX typedBounds"
proof -
  have a: "minX typedBounds = 3602879701896397 / 2 ^ 55"
    and b: "maxX typedBounds = 3602879701896397 / 2 ^ 54"
    by (simp_all add: typedBounds_def round64_tenth round64_fifth)
  have w: "geom_width (createBoundsMesh64 typedBounds) = 3602879701896397 / 2 ^ 55"
    unfolding createBoundsMesh64_def Let_def a b by (simp only: Mesh.simps typed_sizeX)
  have c: "vx (mesh_position (createBoundsMesh64 typedBounds)) = 1351079888211149 / 2 ^ 53"
    unfolding createBoundsMesh64_def Let_def a b
    by (simp only: Mesh.simps Vector3.sel typed_sum typed_centerX)
  have s: "mesh_scale (createBoundsMesh64 typedBounds) = Vector3 1 1 1"
    by (simp add: createBoundsMesh64_def Let_def)
  have m: "minX (boundsFromMesh64 (createBoundsMesh64 typedBounds)) = 7205759403792795 / 2 ^ 56"
    unfolding boundsFromMesh64_def Let_def w c s
    by (simp only: SpawnBounds.simps Vector3.sel typed_width_scaled typed_half_width
          typed_minX_back)
  have ne: "(7205759403792795 / 2 ^ 56 :: real) \<noteq> 3602879701896397 / 2 ^ 55"
    by simp
  from a s m ne show ?thesis by simp
qed

text \<open>
  Claim C7, as amended. In exact arithmetic the mapping from bounds to proxy is
  inverted by reading the bounds back from the proxy's centre and scaled size: for every
  bounds \<open>b\<close>, the proxy built from \<open>b\<close> has unit scale and its centre at
  \<open>(centerX, 0, - centerY)\<close>, and the bounds recovered from it are \<open>b\<close>, component by
  component; the sign of the y axis is the same in both directions (scene \<open>z = - y\<close>).
\<close>

theorem C7_bounds_proxy_round_trip:
  "boundsFromMesh (createBoundsMesh b) = (b :: SpawnBounds)
   \<and> minX (boundsFromMesh (createBoundsMesh b)) = minX b
   \<and> maxX (boundsFromMesh (createBoundsMesh b)) = maxX b
   \<and> minY (boundsFromMesh (createBoundsMesh b)) = minY b
   \<and> maxY (boundsFromMesh (createBoundsMesh b)) = maxY b
   \<and> mesh_scale (createBoundsMesh b) = Vector3 1 1 1
   \<and> mesh_position (createBoundsMesh b)
       = Vector3 ((minX b + maxX b) / 2) 0 (- ((minY b + maxY b) / 2))"
proof -
  have "boundsFromMesh (createBoundsMesh b) = b"
    by (cases b) (simp add: boundsFromMesh_def createBoundsMesh_def Let_def field_simps)
  then show ?thesis
    by (simp add: createBoundsMesh_def Let_def)
qed

end
